theory Spec2Isabelle
  imports Complex_Main
begin

section \<open>Python values used by the trainer\<close>

text \<open>
  The exceptions that \<^verbatim>\<open>BaseTrainer\<close> (src/common/trainer.py) can raise by itself: a
  failed \<^verbatim>\<open>assert\<close>, a missing dictionary key, a subscript or comparison on a value
  of the wrong type, and an integer modulo by zero.
\<close>

datatype py_error = KeyError | AssertionError | TypeError | ZeroDivisionError

text \<open>
  Sequencing of statements that may raise: the first exception ends the run.
\<close>

definition then_do :: "py_error + 'a \<Rightarrow> ('a \<Rightarrow> py_error + 'b) \<Rightarrow> py_error + 'b" where
  "then_do r f = (case r of Inl e \<Rightarrow> Inl e | Inr x \<Rightarrow> f x)"

text \<open>
  Scores are Python floats. \<^verbatim>\<open>best_score\<close> starts at \<^verbatim>\<open>-np.inf\<close> or
  \<^verbatim>\<open>np.inf\<close>, and a metric can be \<^verbatim>\<open>nan\<close>, so the two infinities and NaN are
  values of their own; a finite float is the real number it denotes (rounding is not
  modelled). Comparisons follow IEEE 754 as Python does: every comparison with NaN is
  false.
\<close>

datatype pyfloat = NaN | NegInf | Finite real | PosInf

fun float_le :: "pyfloat \<Rightarrow> pyfloat \<Rightarrow> bool" where
  "float_le NaN y = False"
| "float_le x NaN = False"
| "float_le NegInf y = True"
| "float_le x PosInf = True"
| "float_le (Finite a) (Finite b) = (a \<le> b)"
| "float_le (Finite a) NegInf = False"
| "float_le PosInf (Finite b) = False"
| "float_le PosInf NegInf = False"

definition float_ge :: "pyfloat \<Rightarrow> pyfloat \<Rightarrow> bool" where
  "float_ge x y = float_le y x"

text \<open>
  Float addition and the division by the constant 2 of \<^verbatim>\<open>metrics_visualization\<close>,
  with the IEEE rules for the special values. The exact sum or quotient of finite
  floats is rounded to a float and may overflow to an infinity: \<open>rnd\<close> is this
  rounding of an exact result, the arithmetic of the machine, and is not fixed here.
\<close>

fun float_add :: "(real \<Rightarrow> pyfloat) \<Rightarrow> pyfloat \<Rightarrow> pyfloat \<Rightarrow> pyfloat" where
  "float_add rnd NaN y = NaN"
| "float_add rnd x NaN = NaN"
| "float_add rnd PosInf NegInf = NaN"
| "float_add rnd NegInf PosInf = NaN"
| "float_add rnd PosInf y = PosInf"
| "float_add rnd x PosInf = PosInf"
| "float_add rnd NegInf y = NegInf"
| "float_add rnd x NegInf = NegInf"
| "float_add rnd (Finite a) (Finite b) = rnd (a + b)"

fun float_div2 :: "(real \<Rightarrow> pyfloat) \<Rightarrow> pyfloat \<Rightarrow> pyfloat" where
  "float_div2 rnd NaN = NaN"
| "float_div2 rnd NegInf = NegInf"
| "float_div2 rnd PosInf = PosInf"
| "float_div2 rnd (Finite a) = rnd (a / 2)"

section \<open>The trainer's state\<close>

text \<open>
  A path is the list of the components of an absolute path; \<^verbatim>\<open>p / name\<close> appends a
  component. The constructor makes \<^verbatim>\<open>save_dir\<close> absolute, so the second
  \<^verbatim>\<open>expanduser().absolute()\<close> of \<^verbatim>\<open>_resume_checkpoint\<close> returns
  \<^verbatim>\<open>checkpoints_dir\<close> as it is.
\<close>

type_synonym path = "string list"

text \<open>
  The dictionary that \<^verbatim>\<open>_save_checkpoint\<close> builds, with its keys \<^verbatim>\<open>epoch\<close>,
  \<^verbatim>\<open>best_score\<close>, \<^verbatim>\<open>optimizer\<close> and \<^verbatim>\<open>model\<close> (prefixed here, since the
  trainer has fields of the same names). The optimizer's and the model's state
  dictionaries are opaque blobs of types \<open>'o\<close> and \<open>'m\<close>.
\<close>

record ('o, 'm) checkpoint =
  ck_epoch :: int
  ck_best_score :: pyfloat
  ck_optimizer :: 'o
  ck_model :: 'm

text \<open>
  The files under the checkpoint directories: \<^verbatim>\<open>torch.save\<close> stores the dictionary
  at a path and \<^verbatim>\<open>torch.load\<close> returns what was stored there.
\<close>

type_synonym ('o, 'm) files = "path \<rightharpoonup> ('o, 'm) checkpoint"

text \<open>
  The attributes of \<^verbatim>\<open>BaseTrainer\<close> that its control flow reads or writes.
  \<^verbatim>\<open>epochs\<close> and the two intervals hold whatever the configuration gives, of type
  \<open>'n\<close>: the constructor stores the configuration's values as they are, and
  \<^verbatim>\<open>train\<close> computes with integers.
\<close>

record ('o, 'm, 'n) trainer =
  optimizer :: 'o
  model :: 'm
  epochs :: 'n
  save_checkpoint_interval :: 'n
  validation_interval :: 'n
  save_max_metric_score :: bool
  start_epoch :: int
  best_score :: pyfloat
  checkpoints_dir :: path

section \<open>Best-score tracking\<close>

text \<open>
  \<^verbatim>\<open>_is_best_epoch(self, score, save_max_metric_score=True)\<close>: the returned flag and
  the trainer after the call.
\<close>

definition is_best_epoch ::
  "('o, 'm, 'n) trainer \<Rightarrow> pyfloat \<Rightarrow> bool \<Rightarrow> bool \<times> ('o, 'm, 'n) trainer" where
  "is_best_epoch s score smms =
     (if smms \<and> float_ge score (best_score s) then (True, s\<lparr>best_score := score\<rparr>)
      else if \<not> smms \<and> float_le score (best_score s) then (True, s\<lparr>best_score := score\<rparr>)
      else (False, s))"

text \<open>
  A sequence of calls of \<^verbatim>\<open>_is_best_epoch\<close> on one trainer, each with the flag
  \<^verbatim>\<open>save_max_metric_score\<close>: the returned flag and the trainer after each call.
\<close>

fun is_best_epoch_seq ::
  "('o, 'm, 'n) trainer \<Rightarrow> bool \<Rightarrow> pyfloat list \<Rightarrow> (bool \<times> ('o, 'm, 'n) trainer) list" where
  "is_best_epoch_seq s smms [] = []"
| "is_best_epoch_seq s smms (score # rest) =
     (case is_best_epoch s score smms of
        (flag, s1) \<Rightarrow> (flag, s1) # is_best_epoch_seq s1 smms rest)"

section \<open>Checkpoints\<close>

text \<open>
  \<^verbatim>\<open>str(epoch)\<close> for a Python integer: the decimal digits, most significant first,
  after a minus sign when the number is negative.
\<close>

definition digit_char :: "nat \<Rightarrow> char" where
  "digit_char d = ''0123456789'' ! d"

function str_nat :: "nat \<Rightarrow> string" where
  "str_nat n = (if n < 10 then [digit_char n] else str_nat (n div 10) @ [digit_char (n mod 10)])"
  by pat_completeness auto
termination
  by (relation "measure id") auto

declare str_nat.simps [simp del]

definition str_int :: "int \<Rightarrow> string" where
  "str_int i = (if i < 0 then CHR ''-'' # str_nat (nat (- i)) else str_nat (nat i))"

text \<open>
  \<^verbatim>\<open>s.zfill(width)\<close>: a string already \<^verbatim>\<open>width\<close> long or longer is returned as it
  is; otherwise zeros are added on the left, after a leading sign if there is one.
\<close>

definition zfill :: "nat \<Rightarrow> string \<Rightarrow> string" where
  "zfill width s =
     (if width \<le> length s then s
      else case s of
        [] \<Rightarrow> replicate width (CHR ''0'')
      | c # rest \<Rightarrow>
          if c = CHR ''+'' \<or> c = CHR ''-''
          then c # replicate (width - length s) (CHR ''0'') @ rest
          else replicate (width - length s) (CHR ''0'') @ s)"

text \<open>The three file names of \<^verbatim>\<open>_save_checkpoint\<close>.\<close>

definition latest_model :: string where
  "latest_model = ''latest_model.tar''"

definition best_model :: string where
  "best_model = ''best_model.tar''"

definition epoch_model :: "int \<Rightarrow> string" where
  "epoch_model epoch = ''model_'' @ zfill 4 (str_int epoch) @ ''.tar''"

text \<open>
  \<^verbatim>\<open>_save_checkpoint(self, epoch, is_best_epoch=False)\<close>: the files after the call.
  Both branches of the \<^verbatim>\<open>DataParallel\<close> test store the state dictionary of the
  underlying model; moving the model to the CPU and back does not change it.
\<close>

definition save_checkpoint ::
  "('o, 'm, 'n) trainer \<Rightarrow> int \<Rightarrow> bool \<Rightarrow> ('o, 'm) files \<Rightarrow> ('o, 'm) files" where
  "save_checkpoint s epoch is_best fs =
     (let state_dict = \<lparr>ck_epoch = epoch, ck_best_score = best_score s,
                         ck_optimizer = optimizer s, ck_model = model s\<rparr>;
          fs1 = fs(checkpoints_dir s @ [latest_model] \<mapsto> state_dict);
          fs2 = fs1(checkpoints_dir s @ [epoch_model epoch] \<mapsto> state_dict)
      in if is_best then fs2(checkpoints_dir s @ [best_model] \<mapsto> state_dict) else fs2)"

text \<open>
  \<^verbatim>\<open>_resume_checkpoint(self)\<close>: the assertion that the latest checkpoint exists, then
  the four assignments from the loaded dictionary.
\<close>

definition resume_checkpoint ::
  "('o, 'm, 'n) trainer \<Rightarrow> ('o, 'm) files \<Rightarrow> py_error + ('o, 'm, 'n) trainer" where
  "resume_checkpoint s fs =
     (let latest_model_path = checkpoints_dir s @ [latest_model]
      in case fs latest_model_path of
        None \<Rightarrow> Inl AssertionError
      | Some checkpoint \<Rightarrow>
          Inr (s\<lparr>start_epoch := ck_epoch checkpoint + 1,
                 best_score := ck_best_score checkpoint,
                 optimizer := ck_optimizer checkpoint,
                 model := ck_model checkpoint\<rparr>))"

text \<open>
  \<^verbatim>\<open>_preload_model(self, model_path)\<close>. \<open>resolve\<close> is
  \<^verbatim>\<open>Path(...).expanduser().absolute()\<close>, which depends on the process's home and
  working directory; \<open>load_state_dict\<close> is torch's \<^verbatim>\<open>load_state_dict(..., strict=False)\<close>
  on the model's parameters (current parameters first, loaded ones second).
\<close>

definition preload_model ::
  "(string \<Rightarrow> path) \<Rightarrow> ('m \<Rightarrow> 'm \<Rightarrow> 'm) \<Rightarrow> ('o, 'm, 'n) trainer \<Rightarrow> string \<Rightarrow> ('o, 'm) files
     \<Rightarrow> py_error + ('o, 'm, 'n) trainer" where
  "preload_model resolve load_state_dict s model_path fs =
     (case fs (resolve model_path) of
        None \<Rightarrow> Inl AssertionError
      | Some model_checkpoint \<Rightarrow>
          Inr (s\<lparr>model := load_state_dict (model s) (ck_model model_checkpoint)\<rparr>))"

section \<open>The constructor\<close>

text \<open>
  The configuration is a parsed TOML document: nested dictionaries of scalars and
  arrays. A dictionary is an association list read with \<open>map_of\<close>.
\<close>

datatype toml =
    VBool bool
  | VInt int
  | VFloat pyfloat
  | VStr string
  | VDatetime string
  | VArray "toml list"
  | VTable "(string \<times> toml) list"

text \<open>
  \<^verbatim>\<open>value[key]\<close> with a string key: a dictionary without the key raises
  \<^verbatim>\<open>KeyError\<close>, and no other TOML value can be subscripted with a string.
\<close>

fun subscript :: "toml \<Rightarrow> string \<Rightarrow> py_error + toml" where
  "subscript (VTable items) key =
     (case map_of items key of None \<Rightarrow> Inl KeyError | Some v \<Rightarrow> Inr v)"
| "subscript v key = Inl TypeError"

text \<open>Python's truth value of a configuration entry.\<close>

fun truthy :: "toml \<Rightarrow> bool" where
  "truthy (VBool b) = b"
| "truthy (VInt i) = (i \<noteq> 0)"
| "truthy (VFloat x) = (x \<noteq> Finite 0)"
| "truthy (VStr s) = (s \<noteq> [])"
| "truthy (VDatetime d) = True"
| "truthy (VArray xs) = (xs \<noteq> [])"
| "truthy (VTable items) = (items \<noteq> [])"

text \<open>
  \<^verbatim>\<open>value >= 1\<close>, the comparison of the constructor's assertion: numbers compare
  (a \<^verbatim>\<open>bool\<close> is the integer 0 or 1), any other value raises \<^verbatim>\<open>TypeError\<close>.
\<close>

fun ge_one :: "toml \<Rightarrow> py_error + bool" where
  "ge_one (VBool b) = Inr b"
| "ge_one (VInt i) = Inr (1 \<le> i)"
| "ge_one (VFloat x) = Inr (float_ge x (Finite 1))"
| "ge_one v = Inl TypeError"

text \<open>\<^verbatim>\<open>Path(value)\<close> and \<^verbatim>\<open>path / value\<close> need a string.\<close>

fun as_str :: "toml \<Rightarrow> py_error + string" where
  "as_str (VStr s) = Inr s"
| "as_str v = Inl TypeError"

text \<open>
  \<^verbatim>\<open>path / name\<close> of pathlib for a string of the configuration: the components of
  \<^verbatim>\<open>name\<close> are the pieces between its slashes, without the empty ones and the
  single dots; a name that starts with a slash is absolute and replaces the left
  operand. (A file name without a slash, as in \<^verbatim>\<open>_save_checkpoint\<close>, is one more
  component.)
\<close>

fun split_slash :: "string \<Rightarrow> string list" where
  "split_slash [] = [[]]"
| "split_slash (c # cs) =
     (if c = CHR ''/'' then [] # split_slash cs
      else case split_slash cs of
        [] \<Rightarrow> [[c]]
      | piece # pieces \<Rightarrow> (c # piece) # pieces)"

definition path_parts :: "string \<Rightarrow> string list" where
  "path_parts name = filter (\<lambda>piece. piece \<noteq> [] \<and> piece \<noteq> ''.'') (split_slash name)"

definition joinpath :: "path \<Rightarrow> string \<Rightarrow> path" where
  "joinpath p name =
     (if name \<noteq> [] \<and> hd name = CHR ''/'' then path_parts name else p @ path_parts name)"

text \<open>
  \<^verbatim>\<open>__init__\<close> up to the call of \<^verbatim>\<open>prepare_empty_dir\<close>: the reads of the
  configuration in the order of the source, each value stored as it is, the assertion
  \<^verbatim>\<open>validation_interval >= 1\<close>, and the initial values of \<^verbatim>\<open>start_epoch\<close>,
  \<^verbatim>\<open>best_score\<close> and the directories. \<^verbatim>\<open>save_max_metric_score\<close> is only ever
  tested for truth, so its truth value is what the record keeps. The device, the
  STFT closures, the directory preparation and the summary writer are calls into
  torch, librosa and \<^verbatim>\<open>util\<close>, none of them under src/; they are taken to return
  normally.
\<close>

definition init_attributes ::
  "(string \<Rightarrow> path) \<Rightarrow> toml \<Rightarrow> 'm \<Rightarrow> 'o \<Rightarrow> py_error + ('o, 'm, toml) trainer" where
  "init_attributes resolve config model0 optimizer0 =
     then_do (subscript config ''meta'') (\<lambda>meta.
     then_do (subscript meta ''keep_reproducibility'') (\<lambda>keep_reproducibility.
     then_do (subscript meta ''use_amp'') (\<lambda>use_amp.
     then_do (subscript config ''acoustic'') (\<lambda>acoustic_config.
     then_do (subscript acoustic_config ''n_fft'') (\<lambda>n_fft.
     then_do (subscript acoustic_config ''hop_length'') (\<lambda>hop_length.
     then_do (subscript acoustic_config ''win_length'') (\<lambda>win_length.
     then_do (subscript config ''trainer'') (\<lambda>trainer_config.
     then_do (subscript trainer_config ''train'') (\<lambda>train_config.
     then_do (subscript train_config ''epochs'') (\<lambda>epochs0.
     then_do (subscript train_config ''save_checkpoint_interval'') (\<lambda>interval0.
     then_do (subscript train_config ''clip_grad_norm_value'') (\<lambda>clip_grad_norm_value.
     then_do (subscript trainer_config ''validation'') (\<lambda>validation_config.
     then_do (subscript validation_config ''validation_interval'') (\<lambda>validation0.
     then_do (subscript validation_config ''save_max_metric_score'') (\<lambda>max0.
     then_do (ge_one validation0) (\<lambda>asserted.
     if \<not> asserted then Inl AssertionError
     else
     then_do (subscript trainer_config ''visualization'') (\<lambda>visualization_config.
     then_do (then_do (subscript meta ''save_dir'') as_str) (\<lambda>save_dir0.
     then_do (then_do (subscript meta ''experiment_name'') as_str) (\<lambda>experiment_name.
     Inr \<lparr>optimizer = optimizer0,
          model = model0,
          epochs = epochs0,
          save_checkpoint_interval = interval0,
          validation_interval = validation0,
          save_max_metric_score = truthy max0,
          start_epoch = 1,
          best_score = (if truthy max0 then NegInf else PosInf),
          checkpoints_dir = joinpath (resolve save_dir0) experiment_name @ [''checkpoints'']\<rparr>
     )))))))))))))))))))"

text \<open>\<^verbatim>\<open>__init__\<close> through \<^verbatim>\<open>if resume: self._resume_checkpoint()\<close>.\<close>

definition init_resume ::
  "(string \<Rightarrow> path) \<Rightarrow> toml \<Rightarrow> bool \<Rightarrow> 'm \<Rightarrow> 'o \<Rightarrow> ('o, 'm) files
     \<Rightarrow> py_error + ('o, 'm, toml) trainer" where
  "init_resume resolve config resume model0 optimizer0 fs =
     then_do (init_attributes resolve config model0 optimizer0) (\<lambda>s.
       if resume then resume_checkpoint s fs else Inr s)"

text \<open>
  The whole constructor: after the resume step, the test of
  \<^verbatim>\<open>config["meta"]["preloaded_model_path"]\<close> and the call
  \<^verbatim>\<open>self._preload_model(Path(config["preloaded_model_path"]))\<close>. The prints and
  the dump of the configuration that follow change nothing of the trainer.
\<close>

definition init ::
  "(string \<Rightarrow> path) \<Rightarrow> ('m \<Rightarrow> 'm \<Rightarrow> 'm) \<Rightarrow> toml \<Rightarrow> bool \<Rightarrow> 'm \<Rightarrow> 'o \<Rightarrow> ('o, 'm) files
     \<Rightarrow> py_error + ('o, 'm, toml) trainer" where
  "init resolve load_state_dict config resume model0 optimizer0 fs =
     then_do (init_resume resolve config resume model0 optimizer0 fs) (\<lambda>s.
     then_do (subscript config ''meta'') (\<lambda>meta.
     then_do (subscript meta ''preloaded_model_path'') (\<lambda>tested.
       if truthy tested
       then then_do (then_do (subscript config ''preloaded_model_path'') as_str) (\<lambda>model_path.
              preload_model resolve load_state_dict s model_path fs)
       else Inr s)))"

text \<open>
  A configuration with every entry the constructor reads, after the layout of the
  project's TOML files, for a given \<^verbatim>\<open>validation_interval\<close> and a given list of
  further top-level entries. Its \<^verbatim>\<open>meta\<close> table names a model to preload.
\<close>

definition sample_config :: "toml \<Rightarrow> (string \<times> toml) list \<Rightarrow> toml" where
  "sample_config interval top_level =
     VTable ([
       (''meta'', VTable [
          (''save_dir'', VStr ''/data/Experiments''),
          (''experiment_name'', VStr ''fullsubnet''),
          (''keep_reproducibility'', VBool False),
          (''use_amp'', VBool False),
          (''preloaded_model_path'', VStr ''/pre/best_model.tar'')]),
       (''acoustic'', VTable [
          (''n_fft'', VInt 512),
          (''win_length'', VInt 512),
          (''hop_length'', VInt 256)]),
       (''trainer'', VTable [
          (''train'', VTable [
             (''epochs'', VInt 9999),
             (''save_checkpoint_interval'', VInt 10),
             (''clip_grad_norm_value'', VInt 10)]),
          (''validation'', VTable [
             (''validation_interval'', interval),
             (''save_max_metric_score'', VBool True)]),
          (''visualization'', VTable [])])] @ top_level)"

section \<open>The training loop\<close>

text \<open>Python's \<^verbatim>\<open>a % b\<close> on integers: the remainder has the sign of the divisor.\<close>

definition py_mod :: "int \<Rightarrow> int \<Rightarrow> py_error + int" where
  "py_mod a b = (if b = 0 then Inl ZeroDivisionError else Inr (a mod b))"

text \<open>
  The method calls that \<^verbatim>\<open>train\<close> makes, each logged with the epoch of the loop
  iteration that makes it: \<^verbatim>\<open>_train_epoch\<close>, \<^verbatim>\<open>_validation_epoch\<close>,
  \<^verbatim>\<open>_is_best_epoch\<close> (with the score and the returned flag) and
  \<^verbatim>\<open>_save_checkpoint\<close> (with its \<^verbatim>\<open>is_best_epoch\<close> argument).
\<close>

datatype call =
    Train_epoch
  | Validation_epoch
  | Is_best_epoch pyfloat bool
  | Save_checkpoint bool

type_synonym event = "int \<times> call"

type_synonym ('o, 'm) run = "('o, 'm, int) trainer \<times> ('o, 'm) files \<times> event list"

text \<open>
  One iteration of the loop of \<^verbatim>\<open>train\<close>. \<^verbatim>\<open>_train_epoch\<close> and
  \<^verbatim>\<open>_validation_epoch\<close> raise \<^verbatim>\<open>NotImplementedError\<close> in the base class and
  are supplied by a subclass: \<open>train_epoch\<close> updates the optimizer and the model,
  \<open>validation_epoch\<close> computes the metric score of the model.
\<close>

definition train_body ::
  "(int \<Rightarrow> 'o \<Rightarrow> 'm \<Rightarrow> 'o \<times> 'm) \<Rightarrow> (int \<Rightarrow> 'm \<Rightarrow> pyfloat) \<Rightarrow> int \<Rightarrow> ('o, 'm) run
     \<Rightarrow> py_error + ('o, 'm) run" where
  "train_body train_epoch validation_epoch epoch st =
     (case st of (s, fs, calls) \<Rightarrow>
      (case train_epoch epoch (optimizer s) (model s) of (optimizer1, model1) \<Rightarrow>
       let s1 = s\<lparr>optimizer := optimizer1, model := model1\<rparr>;
           calls1 = calls @ [(epoch, Train_epoch)]
       in
       then_do
         (if save_checkpoint_interval s1 = 0 then Inr (fs, calls1)
          else then_do (py_mod epoch (save_checkpoint_interval s1)) (\<lambda>r.
            if r = 0
            then Inr (save_checkpoint s1 epoch False fs, calls1 @ [(epoch, Save_checkpoint False)])
            else Inr (fs, calls1)))
         (\<lambda>(fs2, calls2).
           then_do (py_mod epoch (validation_interval s1)) (\<lambda>r.
             if r = 0
             then
               (let metric_score = validation_epoch epoch (model s1);
                    calls3 = calls2 @ [(epoch, Validation_epoch)]
                in case is_best_epoch s1 metric_score (save_max_metric_score s1) of
                  (is_best, s2) \<Rightarrow>
                    let calls4 = calls3 @ [(epoch, Is_best_epoch metric_score is_best)]
                    in if is_best
                       then Inr (s2, save_checkpoint s2 epoch True fs2,
                                 calls4 @ [(epoch, Save_checkpoint True)])
                       else Inr (s2, fs2, calls4))
             else Inr (s1, fs2, calls2)))))"

text \<open>The trainer after the call of \<^verbatim>\<open>_train_epoch\<close> of an iteration.\<close>

definition after_train_epoch ::
  "(int \<Rightarrow> 'o \<Rightarrow> 'm \<Rightarrow> 'o \<times> 'm) \<Rightarrow> int \<Rightarrow> ('o, 'm, 'n) trainer \<Rightarrow> ('o, 'm, 'n) trainer" where
  "after_train_epoch train_epoch epoch s =
     (case train_epoch epoch (optimizer s) (model s) of
        (optimizer1, model1) \<Rightarrow> s\<lparr>optimizer := optimizer1, model := model1\<rparr>)"

fun train_loop ::
  "(int \<Rightarrow> 'o \<Rightarrow> 'm \<Rightarrow> 'o \<times> 'm) \<Rightarrow> (int \<Rightarrow> 'm \<Rightarrow> pyfloat) \<Rightarrow> int list \<Rightarrow> ('o, 'm) run
     \<Rightarrow> py_error + ('o, 'm) run" where
  "train_loop train_epoch validation_epoch [] st = Inr st"
| "train_loop train_epoch validation_epoch (epoch # rest) st =
     then_do (train_body train_epoch validation_epoch epoch st)
       (train_loop train_epoch validation_epoch rest)"

text \<open>
  \<^verbatim>\<open>train(self)\<close>: the loop over \<^verbatim>\<open>range(self.start_epoch, self.epochs + 1)\<close>,
  started with an empty log.
\<close>

definition train ::
  "(int \<Rightarrow> 'o \<Rightarrow> 'm \<Rightarrow> 'o \<times> 'm) \<Rightarrow> (int \<Rightarrow> 'm \<Rightarrow> pyfloat) \<Rightarrow> ('o, 'm, int) trainer \<Rightarrow> ('o, 'm) files
     \<Rightarrow> py_error + ('o, 'm) run" where
  "train train_epoch validation_epoch s fs =
     train_loop train_epoch validation_epoch [start_epoch s..epochs s] (s, fs, [])"

section \<open>Validation metrics\<close>

text \<open>
  What \<^verbatim>\<open>metrics_visualization\<close> takes from outside src/:
  \<^verbatim>\<open>util.metrics.REGISTERED_METRICS\<close> (a dictionary from a metric's name to a
  function of a reference and an estimated signal), \<^verbatim>\<open>np.mean\<close> and
  \<^verbatim>\<open>util.acoustic_utils.transform_pesq_range\<close>; and the rounding of the machine's
  float arithmetic. Signals have type \<open>'a\<close>.
\<close>

record 'a metrics_env =
  registered_metrics :: "string \<rightharpoonup> ('a \<Rightarrow> 'a \<Rightarrow> pyfloat)"
  np_mean :: "pyfloat list \<Rightarrow> pyfloat"
  transform_pesq_range :: "pyfloat \<Rightarrow> pyfloat"
  float_round :: "real \<Rightarrow> pyfloat"

text \<open>
  A call of \<^verbatim>\<open>self.writer.add_scalars\<close>: the tag, the means on the noisy and on
  the enhanced signals, and the epoch.
\<close>

type_synonym scalars = "string \<times> pyfloat \<times> pyfloat \<times> int"

text \<open>
  The loop over \<^verbatim>\<open>metrics_list\<close>, on the two running values
  \<^verbatim>\<open>stoi_mean\<close> and \<^verbatim>\<open>wb_pesq_mean\<close> and the scalars written so far.
  \<^verbatim>\<open>Parallel(n_jobs=num_workers)\<close> returns the results of its jobs in the order of
  its input, so it is the map over the zipped pairs.
\<close>

fun metrics_loop ::
  "'a metrics_env \<Rightarrow> 'a list \<Rightarrow> 'a list \<Rightarrow> 'a list \<Rightarrow> int \<Rightarrow> string \<Rightarrow> string list
     \<Rightarrow> pyfloat \<times> pyfloat \<times> scalars list \<Rightarrow> py_error + pyfloat \<times> pyfloat \<times> scalars list" where
  "metrics_loop env noisy_list clean_list enhanced_list epoch mark [] acc = Inr acc"
| "metrics_loop env noisy_list clean_list enhanced_list epoch mark (metric_name # rest)
       (stoi_mean, wb_pesq_mean, written) =
     (case registered_metrics env metric_name of
        None \<Rightarrow> Inl KeyError
      | Some metric \<Rightarrow>
          let score_on_noisy = map (\<lambda>(ref, est). metric ref est) (zip clean_list noisy_list);
              score_on_enhanced = map (\<lambda>(ref, est). metric ref est) (zip clean_list enhanced_list);
              mean_score_on_noisy = np_mean env score_on_noisy;
              mean_score_on_enhanced = np_mean env score_on_enhanced;
              written1 = written @ [(mark @ ''_Validation/'' @ metric_name,
                                     mean_score_on_noisy, mean_score_on_enhanced, epoch)];
              stoi_mean1 = (if metric_name = ''STOI'' then mean_score_on_enhanced else stoi_mean);
              wb_pesq_mean1 = (if metric_name = ''WB_PESQ''
                               then transform_pesq_range env mean_score_on_enhanced
                               else wb_pesq_mean)
          in metrics_loop env noisy_list clean_list enhanced_list epoch mark rest
               (stoi_mean1, wb_pesq_mean1, written1))"

text \<open>
  \<^verbatim>\<open>metrics_visualization\<close>: the two assertions, the loop from
  \<^verbatim>\<open>stoi_mean = 0.0\<close> and \<^verbatim>\<open>wb_pesq_mean = 0.0\<close>, and the returned score
  together with the scalars written. \<open>num_workers\<close> sizes the worker pool only.
\<close>

definition metrics_visualization ::
  "'a metrics_env \<Rightarrow> 'a list \<Rightarrow> 'a list \<Rightarrow> 'a list \<Rightarrow> string list \<Rightarrow> int \<Rightarrow> nat \<Rightarrow> string
     \<Rightarrow> py_error + pyfloat \<times> scalars list" where
  "metrics_visualization env noisy_list clean_list enhanced_list metrics_list epoch num_workers mark =
     (if \<not> (''STOI'' \<in> set metrics_list \<and> ''WB_PESQ'' \<in> set metrics_list) then Inl AssertionError
      else if \<not> list_all (\<lambda>i. registered_metrics env i \<noteq> None) metrics_list then Inl AssertionError
      else then_do
        (metrics_loop env noisy_list clean_list enhanced_list epoch mark metrics_list
           (Finite 0, Finite 0, []))
        (\<lambda>(stoi_mean, wb_pesq_mean, written).
           Inr (float_div2 (float_round env) (float_add (float_round env) stoi_mean wb_pesq_mean),
                written)))"

text \<open>
  The mean of a metric over the pairs of a reference list and an estimate list, as the
  loop computes it twice for every metric.
\<close>

definition mean_score ::
  "'a metrics_env \<Rightarrow> ('a \<Rightarrow> 'a \<Rightarrow> pyfloat) \<Rightarrow> 'a list \<Rightarrow> 'a list \<Rightarrow> pyfloat" where
  "mean_score env metric reference estimate =
     np_mean env (map (\<lambda>(ref, est). metric ref est) (zip reference estimate))"

text \<open>
  An instance of \<^verbatim>\<open>np.mean\<close> on exact values, to run the model on concrete lists:
  the sum divided by the length, and NaN for the empty list.
\<close>

fun float_div_count :: "pyfloat \<Rightarrow> nat \<Rightarrow> pyfloat" where
  "float_div_count (Finite a) n = (if n = 0 then NaN else Finite (a / real n))"
| "float_div_count x n = (if n = 0 then NaN else x)"

definition float_mean :: "pyfloat list \<Rightarrow> pyfloat" where
  "float_mean xs = float_div_count (foldl (float_add Finite) (Finite 0) xs) (length xs)"

section \<open>The direction of the best score\<close>

text \<open>
  The order in which \<^verbatim>\<open>best_score\<close> moves: upwards when the maximal score is kept,
  downwards when the minimal one is.
\<close>

definition toward :: "bool \<Rightarrow> pyfloat \<Rightarrow> pyfloat \<Rightarrow> bool" where
  "toward smms x y = (if smms then float_le x y else float_ge x y)"

section \<open>The calls of a run\<close>

text \<open>
  What the log of a run over the set \<open>E\<close> of epochs holds, for the intervals
  \<open>interval\<close> (checkpoints) and \<open>validation\<close>: for every epoch \<open>e\<close>, a training
  call exactly when \<open>e\<close> is in \<open>E\<close>, a periodic save exactly when moreover the interval
  is not zero and divides \<open>e\<close>, a validation and a best-epoch check exactly when the
  validation interval divides \<open>e\<close>, and a best-model save exactly when a best-epoch
  check of \<open>e\<close> returned True.
\<close>

definition calls_of :: "int \<Rightarrow> int \<Rightarrow> int set \<Rightarrow> event list \<Rightarrow> bool" where
  "calls_of interval validation E new =
     (\<forall>e. ((e, Train_epoch) \<in> set new) = (e \<in> E)
        \<and> ((e, Save_checkpoint False) \<in> set new) = (e \<in> E \<and> interval \<noteq> 0 \<and> e mod interval = 0)
        \<and> ((e, Validation_epoch) \<in> set new) = (e \<in> E \<and> e mod validation = 0)
        \<and> (\<exists>score flag. (e, Is_best_epoch score flag) \<in> set new) = (e \<in> E \<and> e mod validation = 0)
        \<and> ((e, Save_checkpoint True) \<in> set new) = (\<exists>score. (e, Is_best_epoch score True) \<in> set new))"

section \<open>Decoding a file name\<close>

text \<open>
  The inverse of the digits of an epoch's file name, used to show that two epochs never
  share a file.
\<close>

definition digit_val :: "char \<Rightarrow> nat" where
  "digit_val c = of_char c - 48"

definition val_digits :: "string \<Rightarrow> nat" where
  "val_digits s = foldl (\<lambda>a c. 10 * a + digit_val c) 0 s"

definition decode_int :: "string \<Rightarrow> int" where
  "decode_int s =
     (case s of
        [] \<Rightarrow> 0
      | c # rest \<Rightarrow> if c = CHR ''-'' then - int (val_digits rest) else int (val_digits s))"

section \<open>Properties\<close>

text \<open>
  C1. For every score and trainer, \<^verbatim>\<open>_is_best_epoch\<close> called with
  \<^verbatim>\<open>save_max_metric_score=True\<close> returns True exactly when \<^verbatim>\<open>score >= best_score\<close>,
  called with False returns True exactly when \<^verbatim>\<open>score <= best_score\<close>; when it
  returns True the trainer afterwards is the old one with \<^verbatim>\<open>best_score\<close> set to the
  score, and when it returns False the trainer is unchanged.
\<close>

theorem is_best_epoch_spec:
  "fst (is_best_epoch s score True) = float_ge score (best_score s)
   \<and> fst (is_best_epoch s score False) = float_le score (best_score s)
   \<and> snd (is_best_epoch s score smms) =
       (if fst (is_best_epoch s score smms) then s\<lparr>best_score := score\<rparr> else s)"
  by (simp add: is_best_epoch_def)

subsection \<open>Checkpoint files\<close>

text \<open>
  The digits of an epoch's file name decode to the epoch, so the name of the file
  determines the epoch: \<^verbatim>\<open>str(epoch).zfill(4)\<close> is injective.
\<close>

lemma digit_cases: "d < 10 \<Longrightarrow> d = 0 \<or> d = 1 \<or> d = 2 \<or> d = 3 \<or> d = 4 \<or> d = 5 \<or> d = 6 \<or> d = 7 \<or> d = 8 \<or> d = (9::nat)"
  by arith

lemma digit_val_char: "d < 10 \<Longrightarrow> digit_val (digit_char d) = d"
  using digit_cases [of d] by (auto simp: digit_val_def digit_char_def)

lemma digit_char_not_sign: "d < 10 \<Longrightarrow> digit_char d \<noteq> CHR ''-'' \<and> digit_char d \<noteq> CHR ''+''"
  using digit_cases [of d] by (auto simp: digit_char_def)

lemma val_digits_snoc: "val_digits (s @ [c]) = 10 * val_digits s + digit_val c"
  by (simp add: val_digits_def)

lemma val_digits_str_nat: "val_digits (str_nat n) = n"
proof (induction n rule: str_nat.induct)
  case (1 n)
  show ?case
  proof (cases "n < 10")
    case True
    then show ?thesis
      by (subst str_nat.simps) (simp add: val_digits_def digit_val_char)
  next
    case False
    then have "val_digits (str_nat (n div 10)) = n div 10" using 1 by simp
    with False show ?thesis
      by (subst str_nat.simps) (simp add: val_digits_snoc digit_val_char)
  qed
qed

lemma val_digits_zeros: "val_digits (replicate k (CHR ''0'') @ s) = val_digits s"
  by (induction k) (simp_all add: val_digits_def digit_val_def)

lemma str_nat_head: "\<exists>d rest. d < 10 \<and> str_nat n = digit_char d # rest"
proof (induction n rule: str_nat.induct)
  case (1 n)
  show ?case
  proof (cases "n < 10")
    case True
    then show ?thesis by (subst str_nat.simps) auto
  next
    case False
    then obtain d rest where "d < 10" "str_nat (n div 10) = digit_char d # rest"
      using 1 by blast
    with False show ?thesis by (subst str_nat.simps) auto
  qed
qed

lemma decode_zfill_str_int: "decode_int (zfill w (str_int i)) = i"
proof (cases "i < 0")
  case True
  then show ?thesis
    by (simp add: str_int_def zfill_def decode_int_def val_digits_zeros val_digits_str_nat)
next
  case False
  obtain d rest where d: "d < 10" "str_nat (nat i) = digit_char d # rest"
    using str_nat_head by blast
  have v: "val_digits (digit_char d # rest) = nat i"
    using val_digits_str_nat [of "nat i"] d by simp
  show ?thesis
  proof (cases "w \<le> length (str_nat (nat i))")
    case True
    with False d v digit_char_not_sign [of d] show ?thesis
      by (simp add: str_int_def zfill_def decode_int_def)
  next
    case nw: False
    then obtain k where k: "w - length (str_nat (nat i)) = Suc k"
      by (cases "w - length (str_nat (nat i))") auto
    have "val_digits (replicate (Suc k) (CHR ''0'') @ digit_char d # rest) = nat i"
      using v val_digits_zeros by metis
    with False d nw k digit_char_not_sign [of d] show ?thesis
      by (simp add: str_int_def zfill_def decode_int_def)
  qed
qed

lemma epoch_model_inj: "epoch_model a = epoch_model b \<Longrightarrow> a = b"
proof -
  assume "epoch_model a = epoch_model b"
  then have "zfill 4 (str_int a) = zfill 4 (str_int b)"
    by (simp add: epoch_model_def)
  then have "decode_int (zfill 4 (str_int a)) = decode_int (zfill 4 (str_int b))" by simp
  then show "a = b" by (simp add: decode_zfill_str_int)
qed

lemma epoch_model_not_fixed: "epoch_model e \<noteq> latest_model \<and> epoch_model e \<noteq> best_model"
  by (simp add: epoch_model_def latest_model_def best_model_def)

text \<open>The files after \<^verbatim>\<open>_save_checkpoint\<close>, path by path.\<close>

lemma save_checkpoint_apply:
  "save_checkpoint s e b fs p =
     (if p = checkpoints_dir s @ [latest_model] \<or> p = checkpoints_dir s @ [epoch_model e]
         \<or> (b \<and> p = checkpoints_dir s @ [best_model])
      then Some \<lparr>ck_epoch = e, ck_best_score = best_score s,
                 ck_optimizer = optimizer s, ck_model = model s\<rparr>
      else fs p)"
  by (simp add: save_checkpoint_def Let_def)

text \<open>
  C3. For every epoch number \<open>e\<close> and trainer \<open>s\<close>, \<^verbatim>\<open>_save_checkpoint(e)\<close>
  followed by \<^verbatim>\<open>_resume_checkpoint\<close> on a trainer \<open>r\<close> of the same checkpoint
  directory (the saving trainer itself, or the one of a later run) succeeds and sets
  \<^verbatim>\<open>start_epoch\<close> to \<open>e + 1\<close> and \<^verbatim>\<open>best_score\<close>, the optimizer and the model to the
  values held at save time, whatever \<open>r\<close> held in these attributes before.
\<close>

theorem save_then_resume:
  assumes "checkpoints_dir r = checkpoints_dir s"
  shows "resume_checkpoint r (save_checkpoint s e b fs) =
           Inr (r\<lparr>start_epoch := e + 1, best_score := best_score s,
                  optimizer := optimizer s, model := model s\<rparr>)"
  using assms by (simp add: resume_checkpoint_def save_checkpoint_apply)


text \<open>
  The round trip at a concrete input: epoch 4 saved with best score 3, resumed by a
  fresh trainer.
\<close>

theorem save_then_resume_witness:
  "resume_checkpoint
     \<lparr>optimizer = (0::nat), model = (0::nat), epochs = (10::int), save_checkpoint_interval = 1,
      validation_interval = 1, save_max_metric_score = True, start_epoch = 1,
      best_score = NegInf, checkpoints_dir = [''exp'', ''checkpoints'']\<rparr>
     (save_checkpoint
        \<lparr>optimizer = 7, model = 8, epochs = (10::int), save_checkpoint_interval = 1,
         validation_interval = 1, save_max_metric_score = True, start_epoch = 1,
         best_score = Finite 3, checkpoints_dir = [''exp'', ''checkpoints'']\<rparr>
        4 False Map.empty)
   = Inr \<lparr>optimizer = 7, model = 8, epochs = (10::int), save_checkpoint_interval = 1,
          validation_interval = 1, save_max_metric_score = True, start_epoch = 5,
          best_score = Finite 3, checkpoints_dir = [''exp'', ''checkpoints'']\<rparr>"
  using save_then_resume [of
     "\<lparr>optimizer = (0::nat), model = (0::nat), epochs = (10::int), save_checkpoint_interval = 1,
      validation_interval = 1, save_max_metric_score = True, start_epoch = 1,
      best_score = NegInf, checkpoints_dir = [''exp'', ''checkpoints'']\<rparr>"
     "\<lparr>optimizer = 7, model = 8, epochs = (10::int), save_checkpoint_interval = 1,
         validation_interval = 1, save_max_metric_score = True, start_epoch = 1,
         best_score = Finite 3, checkpoints_dir = [''exp'', ''checkpoints'']\<rparr>"
     4 False Map.empty]
  by simp

text \<open>
  The decimal numeral of a natural number: digits only, no leading zero, at most four
  digits below 10000.
\<close>

lemma str_nat_digits: "set (str_nat n) \<subseteq> set ''0123456789''"
proof (induction n rule: str_nat.induct)
  case (1 n)
  have d: "digit_char k \<in> set ''0123456789''" if "k < 10" for k
    using digit_cases [OF that] by (auto simp: digit_char_def)
  show ?case
  proof (cases "n < 10")
    case True
    then show ?thesis using d [of n] by (subst str_nat.simps) simp
  next
    case False
    then show ?thesis using 1 d [of "n mod 10"] by (subst str_nat.simps) simp
  qed
qed

lemma str_nat_no_leading_zero: "0 < n \<Longrightarrow> hd (str_nat n) \<noteq> CHR ''0''"
proof (induction n rule: str_nat.induct)
  case (1 n)
  show ?case
  proof (cases "n < 10")
    case True
    then show ?thesis
      using "1.prems" digit_cases [of n] by (subst str_nat.simps) (auto simp: digit_char_def)
  next
    case False
    then have "hd (str_nat (n div 10)) \<noteq> CHR ''0''" using 1 by simp
    moreover obtain d rest where "str_nat (n div 10) = digit_char d # rest"
      using str_nat_head by blast
    ultimately show ?thesis using False by (subst str_nat.simps) simp
  qed
qed

lemma str_nat_length: "n < 10000 \<Longrightarrow> length (str_nat n) \<le> 4"
proof -
  assume n: "n < 10000"
  have one: "length (str_nat k) = 1" if "k < 10" for k
    using that by (subst str_nat.simps) simp
  have two: "length (str_nat k) \<le> 2" if "k < 100" for k
  proof (cases "k < 10")
    case True
    then show ?thesis using one [of k] by simp
  next
    case False
    moreover have "k div 10 < 10" using that by simp
    ultimately show ?thesis using one [of "k div 10"] by (subst str_nat.simps) simp
  qed
  have three: "length (str_nat k) \<le> 3" if "k < 1000" for k
  proof (cases "k < 10")
    case True
    then show ?thesis using one [of k] by simp
  next
    case False
    moreover have "k div 10 < 100" using that by simp
    ultimately show ?thesis using two [of "k div 10"] by (subst str_nat.simps) simp
  qed
  show ?thesis
  proof (cases "n < 10")
    case True
    then show ?thesis using one [of n] by simp
  next
    case False
    moreover have "n div 10 < 1000" using n by simp
    ultimately show ?thesis using three [of "n div 10"] by (subst str_nat.simps) simp
  qed
qed

text \<open>
  C4. Every call of \<^verbatim>\<open>_save_checkpoint\<close> stores the record of the epoch number, the
  best score so far, the optimizer state and the model state at
  \<^verbatim>\<open>latest_model.tar\<close> and at \<^verbatim>\<open>model_<epoch, zero-padded to 4 digits>.tar\<close>, and
  at \<^verbatim>\<open>best_model.tar\<close> when \<^verbatim>\<open>is_best_epoch\<close> is set (otherwise that file is left
  as it was); the file of another epoch \<open>e'\<close> is never overwritten, and no other path
  is written. The name of the file of an epoch \<open>e \<ge> 0\<close> is \<^verbatim>\<open>model_\<close>, then as many
  zeros as the decimal numeral of \<open>e\<close> lacks to four characters, then that numeral
  (digits only, of value \<open>e\<close>, without a leading zero, at most four digits below
  10000), then \<^verbatim>\<open>.tar\<close>.
\<close>

theorem save_checkpoint_writes:
  "save_checkpoint s e b fs (checkpoints_dir s @ [latest_model]) =
     Some \<lparr>ck_epoch = e, ck_best_score = best_score s,
           ck_optimizer = optimizer s, ck_model = model s\<rparr>
   \<and> save_checkpoint s e b fs (checkpoints_dir s @ [epoch_model e]) =
     Some \<lparr>ck_epoch = e, ck_best_score = best_score s,
           ck_optimizer = optimizer s, ck_model = model s\<rparr>
   \<and> save_checkpoint s e b fs (checkpoints_dir s @ [best_model]) =
     (if b then Some \<lparr>ck_epoch = e, ck_best_score = best_score s,
                      ck_optimizer = optimizer s, ck_model = model s\<rparr>
      else fs (checkpoints_dir s @ [best_model]))
   \<and> save_checkpoint s e b fs (checkpoints_dir s @ [epoch_model e']) =
     (if e' = e then Some \<lparr>ck_epoch = e, ck_best_score = best_score s,
                           ck_optimizer = optimizer s, ck_model = model s\<rparr>
      else fs (checkpoints_dir s @ [epoch_model e']))
   \<and> save_checkpoint s e b fs p =
     (if p = checkpoints_dir s @ [latest_model] \<or> p = checkpoints_dir s @ [epoch_model e]
         \<or> p = checkpoints_dir s @ [best_model]
      then save_checkpoint s e b fs p else fs p)
   \<and> latest_model = ''latest_model.tar'' \<and> best_model = ''best_model.tar''
   \<and> (0 \<le> e \<longrightarrow>
        epoch_model e =
          ''model_'' @ replicate (4 - length (str_int e)) (CHR ''0'') @ str_int e @ ''.tar''
        \<and> str_int e \<noteq> [] \<and> set (str_int e) \<subseteq> set ''0123456789''
        \<and> val_digits (str_int e) = nat e
        \<and> (0 < e \<longrightarrow> hd (str_int e) \<noteq> CHR ''0'')
        \<and> (e < 10000 \<longrightarrow> length (str_int e) \<le> 4))"
proof -
  have names: "epoch_model e \<noteq> latest_model" "epoch_model e \<noteq> best_model"
    "epoch_model e' \<noteq> latest_model" "epoch_model e' \<noteq> best_model"
    "best_model \<noteq> latest_model"
    using epoch_model_not_fixed by (auto simp: best_model_def latest_model_def)
  have inj: "(epoch_model e' = epoch_model e) = (e' = e)"
    using epoch_model_inj by blast
  have files: "save_checkpoint s e b fs (checkpoints_dir s @ [latest_model]) =
     Some \<lparr>ck_epoch = e, ck_best_score = best_score s,
           ck_optimizer = optimizer s, ck_model = model s\<rparr>
   \<and> save_checkpoint s e b fs (checkpoints_dir s @ [epoch_model e]) =
     Some \<lparr>ck_epoch = e, ck_best_score = best_score s,
           ck_optimizer = optimizer s, ck_model = model s\<rparr>
   \<and> save_checkpoint s e b fs (checkpoints_dir s @ [best_model]) =
     (if b then Some \<lparr>ck_epoch = e, ck_best_score = best_score s,
                      ck_optimizer = optimizer s, ck_model = model s\<rparr>
      else fs (checkpoints_dir s @ [best_model]))
   \<and> save_checkpoint s e b fs (checkpoints_dir s @ [epoch_model e']) =
     (if e' = e then Some \<lparr>ck_epoch = e, ck_best_score = best_score s,
                           ck_optimizer = optimizer s, ck_model = model s\<rparr>
      else fs (checkpoints_dir s @ [epoch_model e']))
   \<and> save_checkpoint s e b fs p =
     (if p = checkpoints_dir s @ [latest_model] \<or> p = checkpoints_dir s @ [epoch_model e]
         \<or> p = checkpoints_dir s @ [best_model]
      then save_checkpoint s e b fs p else fs p)"
    using names by (simp add: save_checkpoint_apply inj)
  have padded: "epoch_model e =
          ''model_'' @ replicate (4 - length (str_int e)) (CHR ''0'') @ str_int e @ ''.tar''
        \<and> str_int e \<noteq> [] \<and> set (str_int e) \<subseteq> set ''0123456789''
        \<and> val_digits (str_int e) = nat e
        \<and> (0 < e \<longrightarrow> hd (str_int e) \<noteq> CHR ''0'')
        \<and> (e < 10000 \<longrightarrow> length (str_int e) \<le> 4)" if e: "0 \<le> e"
  proof -
    have si: "str_int e = str_nat (nat e)" using e by (simp add: str_int_def)
    obtain d rest where d: "d < 10" "str_nat (nat e) = digit_char d # rest"
      using str_nat_head by blast
    have "zfill 4 (str_int e) = replicate (4 - length (str_int e)) (CHR ''0'') @ str_int e"
      using d digit_char_not_sign [of d] by (simp add: si zfill_def)
    then have "epoch_model e =
          ''model_'' @ replicate (4 - length (str_int e)) (CHR ''0'') @ str_int e @ ''.tar''"
      by (simp add: epoch_model_def)
    moreover have "str_int e \<noteq> []" using d by (simp add: si)
    moreover have "set (str_int e) \<subseteq> set ''0123456789''"
      unfolding si by (rule str_nat_digits)
    moreover have "val_digits (str_int e) = nat e"
      by (simp add: si val_digits_str_nat)
    moreover have "0 < e \<longrightarrow> hd (str_int e) \<noteq> CHR ''0''"
      using str_nat_no_leading_zero [of "nat e"] by (simp add: si)
    moreover have "e < 10000 \<longrightarrow> length (str_int e) \<le> 4"
      using str_nat_length [of "nat e"] e by (simp add: si)
    ultimately show ?thesis by blast
  qed
  show ?thesis
    using files padded by (simp add: latest_model_def best_model_def)
qed

text \<open>
  The files after a save of epoch 7 on an empty disk, and the names of the files of
  the epochs 123, 9999 and 12345.
\<close>

theorem save_checkpoint_writes_witness:
  "epoch_model 7 = ''model_0007.tar''
   \<and> epoch_model 123 = ''model_0123.tar''
   \<and> epoch_model 9999 = ''model_9999.tar''
   \<and> epoch_model 12345 = ''model_12345.tar''
   \<and> save_checkpoint
       \<lparr>optimizer = (1::nat), model = (2::nat), epochs = (10::int), save_checkpoint_interval = 1,
        validation_interval = 1, save_max_metric_score = True, start_epoch = 1,
        best_score = Finite 3, checkpoints_dir = [''exp'', ''checkpoints'']\<rparr>
       7 False Map.empty [''exp'', ''checkpoints'', ''model_0007.tar'']
     = Some \<lparr>ck_epoch = 7, ck_best_score = Finite 3, ck_optimizer = 1, ck_model = 2\<rparr>
   \<and> save_checkpoint
       \<lparr>optimizer = (1::nat), model = (2::nat), epochs = (10::int), save_checkpoint_interval = 1,
        validation_interval = 1, save_max_metric_score = True, start_epoch = 1,
        best_score = Finite 3, checkpoints_dir = [''exp'', ''checkpoints'']\<rparr>
       7 False Map.empty [''exp'', ''checkpoints'', ''best_model.tar'']
     = None"
proof -
  have n: "str_nat 7 = ''7''" "str_nat 123 = ''123''" "str_nat 9999 = ''9999''"
    "str_nat 12345 = ''12345''"
    by (simp_all add: str_nat.simps digit_char_def)
  have pad: "replicate 3 (CHR ''0'') = ''000''"
    by (simp add: numeral_3_eq_3)
  have names: "epoch_model 7 = ''model_0007.tar''" "epoch_model 123 = ''model_0123.tar''"
    "epoch_model 9999 = ''model_9999.tar''" "epoch_model 12345 = ''model_12345.tar''"
    by (simp_all add: epoch_model_def str_int_def zfill_def n pad)
  show ?thesis
    using save_checkpoint_writes [of
        "\<lparr>optimizer = (1::nat), model = (2::nat), epochs = (10::int), save_checkpoint_interval = 1,
        validation_interval = 1, save_max_metric_score = True, start_epoch = 1,
        best_score = Finite 3, checkpoints_dir = [''exp'', ''checkpoints'']\<rparr>"
        7 False Map.empty 7 "[''exp'', ''checkpoints'', ''best_model.tar'']"]
    by (simp add: names best_model_def str_int_def n pad)
qed

subsection \<open>Monotonicity of the best score\<close>

text \<open>
  The float order is transitive, and reflexive except at NaN. A call of
  \<^verbatim>\<open>_is_best_epoch\<close> never stores NaN, since NaN compares false with everything.
\<close>

lemma float_le_refl: "x \<noteq> NaN \<Longrightarrow> float_le x x"
  by (cases x) simp_all

lemma float_le_trans: "float_le x y \<Longrightarrow> float_le y z \<Longrightarrow> float_le x z"
  by (cases x; cases y; cases z) simp_all

lemma float_le_not_nan: "float_le x y \<Longrightarrow> x \<noteq> NaN \<and> y \<noteq> NaN"
  by (cases x; cases y) simp_all

lemma toward_refl: "x \<noteq> NaN \<Longrightarrow> toward smms x x"
  by (simp add: toward_def float_ge_def float_le_refl)

lemma toward_trans: "toward smms x y \<Longrightarrow> toward smms y z \<Longrightarrow> toward smms x z"
  by (auto simp: toward_def float_ge_def intro: float_le_trans split: if_splits)

lemma is_best_epoch_step:
  assumes "best_score s \<noteq> NaN"
  shows "toward smms (best_score s) (best_score (snd (is_best_epoch s score smms)))
         \<and> best_score (snd (is_best_epoch s score smms)) \<noteq> NaN"
  using assms float_le_not_nan [of score "best_score s"] float_le_not_nan [of "best_score s" score]
  by (auto simp: is_best_epoch_def toward_def float_ge_def float_le_refl)

lemma is_best_epoch_change:
  "best_score (snd (is_best_epoch s score smms)) = best_score s
   \<or> (fst (is_best_epoch s score smms) \<and> best_score (snd (is_best_epoch s score smms)) = score)"
  by (simp add: is_best_epoch_def)

lemma seq_bound:
  "best_score s \<noteq> NaN \<Longrightarrow>
   \<forall>t \<in> set (map (best_score \<circ> snd) (is_best_epoch_seq s smms scores)). toward smms (best_score s) t"
proof (induction scores arbitrary: s)
  case Nil
  then show ?case by simp
next
  case (Cons score rest)
  obtain flag s1 where r: "is_best_epoch s score smms = (flag, s1)"
    by (cases "is_best_epoch s score smms")
  have step: "toward smms (best_score s) (best_score s1)" "best_score s1 \<noteq> NaN"
    using is_best_epoch_step [OF Cons.prems, of smms score] r by simp_all
  have "\<forall>t \<in> set (map (best_score \<circ> snd) (is_best_epoch_seq s1 smms rest)). toward smms (best_score s1) t"
    using Cons.IH [OF step(2)] .
  with step(1) have "\<forall>t \<in> set (map (best_score \<circ> snd) (is_best_epoch_seq s1 smms rest)). toward smms (best_score s) t"
    using toward_trans by blast
  with step(1) r show ?case by simp
qed

lemma seq_sorted:
  "best_score s \<noteq> NaN \<Longrightarrow>
   sorted_wrt (toward smms) (best_score s # map (best_score \<circ> snd) (is_best_epoch_seq s smms scores))"
proof (induction scores arbitrary: s)
  case Nil
  then show ?case by simp
next
  case (Cons score rest)
  obtain flag s1 where r: "is_best_epoch s score smms = (flag, s1)"
    by (cases "is_best_epoch s score smms")
  have step: "best_score s1 \<noteq> NaN"
    using is_best_epoch_step [OF Cons.prems, of smms score] r by simp
  have tail: "sorted_wrt (toward smms) (best_score s1 # map (best_score \<circ> snd) (is_best_epoch_seq s1 smms rest))"
    using Cons.IH [OF step] .
  have head: "\<forall>t \<in> set (map (best_score \<circ> snd) (is_best_epoch_seq s smms (score # rest))). toward smms (best_score s) t"
    using seq_bound [OF Cons.prems] .
  show ?case using tail head r by (simp add: comp_def)
qed

lemma seq_length: "length (is_best_epoch_seq s smms scores) = length scores"
  by (induction scores arbitrary: s) (auto split: prod.splits)

lemma seq_changes:
  "i < length scores \<Longrightarrow>
   best_score (snd (is_best_epoch_seq s smms scores ! i))
     = best_score ((s # map snd (is_best_epoch_seq s smms scores)) ! i)
   \<or> (fst (is_best_epoch_seq s smms scores ! i)
      \<and> best_score (snd (is_best_epoch_seq s smms scores ! i)) = scores ! i)"
proof (induction scores arbitrary: s i)
  case Nil
  then show ?case by simp
next
  case (Cons score rest)
  obtain flag s1 where r: "is_best_epoch s score smms = (flag, s1)"
    by (cases "is_best_epoch s score smms")
  show ?case
  proof (cases i)
    case 0
    then show ?thesis using is_best_epoch_change [of s score smms] r by simp
  next
    case (Suc j)
    then have "j < length rest" using Cons.prems by simp
    from Cons.IH [OF this, of s1] show ?thesis using Suc r by simp
  qed
qed

text \<open>
  C6. Over any sequence of calls of \<^verbatim>\<open>_is_best_epoch\<close> that starts from the
  constructor's value (\<^verbatim>\<open>-inf\<close> when \<^verbatim>\<open>save_max_metric_score\<close> is true,
  \<^verbatim>\<open>+inf\<close> when it is false), the successive values of \<^verbatim>\<open>best_score\<close> are
  non-decreasing when the flag is true and non-increasing when it is false; and the
  \<open>i\<close>-th call either leaves \<^verbatim>\<open>best_score\<close> as it was before it, or returns True
  and sets it to the \<open>i\<close>-th score.
\<close>

theorem best_score_monotone:
  assumes "best_score s = (if smms then NegInf else PosInf)"
  shows "sorted_wrt (if smms then float_le else float_ge)
           (best_score s # map (best_score \<circ> snd) (is_best_epoch_seq s smms scores))
         \<and> (\<forall>i < length scores.
              best_score (snd (is_best_epoch_seq s smms scores ! i))
                = best_score ((s # map snd (is_best_epoch_seq s smms scores)) ! i)
              \<or> (fst (is_best_epoch_seq s smms scores ! i)
                 \<and> best_score (snd (is_best_epoch_seq s smms scores ! i)) = scores ! i))"
proof -
  have "best_score s \<noteq> NaN" using assms by (simp split: if_splits)
  then have "sorted_wrt (toward smms)
               (best_score s # map (best_score \<circ> snd) (is_best_epoch_seq s smms scores))"
    by (rule seq_sorted)
  moreover have "toward smms = (if smms then float_le else float_ge)"
    by (auto simp: toward_def fun_eq_iff)
  ultimately show ?thesis using seq_changes by auto
qed

text \<open>
  Four calls from \<^verbatim>\<open>-inf\<close>: the scores 2, NaN, 1 and 5 leave the best scores
  2, 2, 2 and 5.
\<close>

theorem best_score_monotone_witness:
  "map (best_score \<circ> snd)
     (is_best_epoch_seq
        \<lparr>optimizer = (), model = (), epochs = (3::int), save_checkpoint_interval = 1,
         validation_interval = 1, save_max_metric_score = True, start_epoch = 1,
         best_score = NegInf, checkpoints_dir = []\<rparr>
        True [Finite 2, NaN, Finite 1, Finite 5])
   = [Finite 2, Finite 2, Finite 2, Finite 5]
   \<and> sorted_wrt float_le [NegInf, Finite 2, Finite 2, Finite 2, Finite 5]"
  using best_score_monotone [of
        "\<lparr>optimizer = (), model = (), epochs = (3::int), save_checkpoint_interval = 1,
         validation_interval = 1, save_max_metric_score = True, start_epoch = 1,
         best_score = NegInf, checkpoints_dir = []\<rparr>"
        True "[Finite 2, NaN, Finite 1, Finite 5]"]
  by (simp add: is_best_epoch_def float_ge_def)

subsection \<open>The validation score\<close>

lemma then_do_Inr [simp]: "then_do (Inr x) f = f x"
  by (simp add: then_do_def)

lemma then_do_Inl [simp]: "then_do (Inl e) f = Inl e"
  by (simp add: then_do_def)

text \<open>
  The loop over a list of registered metrics never raises; it replaces
  \<^verbatim>\<open>stoi_mean\<close> and \<^verbatim>\<open>wb_pesq_mean\<close> when their metric is in the list and writes
  one pair of scalars for each metric name.
\<close>

lemma metrics_loop_result:
  "list_all (\<lambda>i. registered_metrics env i \<noteq> None) ml \<Longrightarrow>
   metrics_loop env noisy clean enhanced epoch mark ml (a, b, w) =
     Inr (if ''STOI'' \<in> set ml
          then mean_score env (the (registered_metrics env ''STOI'')) clean enhanced else a,
          if ''WB_PESQ'' \<in> set ml
          then transform_pesq_range env
                 (mean_score env (the (registered_metrics env ''WB_PESQ'')) clean enhanced)
          else b,
          w @ map (\<lambda>name. (mark @ ''_Validation/'' @ name,
                            mean_score env (the (registered_metrics env name)) clean noisy,
                            mean_score env (the (registered_metrics env name)) clean enhanced,
                            epoch)) ml)"
proof (induction ml arbitrary: a b w)
  case Nil
  then show ?case by simp
next
  case (Cons name rest)
  then obtain metric where m: "registered_metrics env name = Some metric" by auto
  have rest: "list_all (\<lambda>i. registered_metrics env i \<noteq> None) rest"
    using Cons.prems by simp
  show ?case
    using m by (auto simp: Cons.IH [OF rest] Let_def mean_score_def)
qed

text \<open>
  C7, as it holds. For every \<^verbatim>\<open>metrics_list\<close> that contains \<^verbatim>\<open>"STOI"\<close> and
  \<^verbatim>\<open>"WB_PESQ"\<close> and whose names are all registered, \<^verbatim>\<open>metrics_visualization\<close>
  returns (mean STOI over the enhanced signals + \<^verbatim>\<open>transform_pesq_range\<close>(mean WB_PESQ
  over the enhanced signals)) / 2. The means over the noisy signals and the means of
  the other metrics appear in the scalars written for each metric name only.
\<close>

theorem metrics_visualization_score:
  assumes "''STOI'' \<in> set metrics_list" and "''WB_PESQ'' \<in> set metrics_list"
    and "list_all (\<lambda>i. registered_metrics env i \<noteq> None) metrics_list"
    and "registered_metrics env ''STOI'' = Some stoi"
    and "registered_metrics env ''WB_PESQ'' = Some wb_pesq"
  shows "metrics_visualization env noisy_list clean_list enhanced_list metrics_list epoch num_workers mark =
     Inr (float_div2 (float_round env)
            (float_add (float_round env) (mean_score env stoi clean_list enhanced_list)
               (transform_pesq_range env (mean_score env wb_pesq clean_list enhanced_list))),
          map (\<lambda>name. (mark @ ''_Validation/'' @ name,
                        mean_score env (the (registered_metrics env name)) clean_list noisy_list,
                        mean_score env (the (registered_metrics env name)) clean_list enhanced_list,
                        epoch)) metrics_list)"
  using assms by (simp add: metrics_visualization_def metrics_loop_result)

text \<open>
  C7 as stated asks this of every list that contains the two names. A list that also
  holds a name missing from the registry fails the second assertion instead: here
  \<^verbatim>\<open>"MOS"\<close> with a registry of \<^verbatim>\<open>"STOI"\<close> and \<^verbatim>\<open>"WB_PESQ"\<close>.
\<close>

theorem metrics_visualization_unregistered:
  "''STOI'' \<in> set [''STOI'', ''WB_PESQ'', ''MOS'']
   \<and> ''WB_PESQ'' \<in> set [''STOI'', ''WB_PESQ'', ''MOS'']
   \<and> metrics_visualization
       \<lparr>registered_metrics = [''STOI'' \<mapsto> (\<lambda>ref est. Finite (ref * est)),
                              ''WB_PESQ'' \<mapsto> (\<lambda>ref est. Finite (est - ref))],
        np_mean = float_mean,
        transform_pesq_range = (\<lambda>x. float_add Finite x (Finite (1/2))),
        float_round = Finite\<rparr>
       [1, 2] [3, 4] [5, 6 :: real] [''STOI'', ''WB_PESQ'', ''MOS''] 1 10 ''''
     = Inl AssertionError"
  by (simp add: metrics_visualization_def)

text \<open>
  The same registry on two clean signals 3, 4 and two enhanced signals 5, 6: the mean
  of STOI is 39/2, the mean of WB_PESQ is 2, transformed to 5/2, and the score is 11.
\<close>

theorem metrics_visualization_score_witness:
  "metrics_visualization
       \<lparr>registered_metrics = [''STOI'' \<mapsto> (\<lambda>ref est. Finite (ref * est)),
                              ''WB_PESQ'' \<mapsto> (\<lambda>ref est. Finite (est - ref))],
        np_mean = float_mean,
        transform_pesq_range = (\<lambda>x. float_add Finite x (Finite (1/2))),
        float_round = Finite\<rparr>
       [1, 2] [3, 4] [5, 6 :: real] [''WB_PESQ'', ''STOI''] 1 10 ''''
     = Inr (Finite (11), [(''_Validation/WB_PESQ'', Finite (-2), Finite 2, 1),
                          (''_Validation/STOI'', Finite (11/2), Finite (39/2), 1)])"
  using metrics_visualization_score [of
       "[''WB_PESQ'', ''STOI'']"
       "\<lparr>registered_metrics = [''STOI'' \<mapsto> (\<lambda>ref est. Finite (ref * est)),
                              ''WB_PESQ'' \<mapsto> (\<lambda>ref est. Finite (est - ref))],
        np_mean = float_mean,
        transform_pesq_range = (\<lambda>x. float_add Finite x (Finite (1/2))),
        float_round = Finite\<rparr>"
       "\<lambda>ref est. Finite (ref * est)" "\<lambda>ref est. Finite (est - ref)"
       "[1, 2]" "[3, 4]" "[5, 6 :: real]" 1 10 "''''"]
  by (simp add: mean_score_def float_mean_def)

subsection \<open>The cadence of the training loop\<close>

text \<open>
  One iteration with a validation interval other than zero returns normally, keeps
  the two intervals, and appends the calls of its epoch to the log; so does the loop
  over any list of epochs.
\<close>

lemma is_best_epoch_intervals:
  "save_checkpoint_interval (snd (is_best_epoch s score smms)) = save_checkpoint_interval s
   \<and> validation_interval (snd (is_best_epoch s score smms)) = validation_interval s"
  by (simp add: is_best_epoch_def)

lemma train_body_calls:
  assumes "validation_interval s \<noteq> 0"
  shows "\<exists>s' fs' new. train_body te ve e (s, fs, calls) = Inr (s', fs', calls @ new)
           \<and> save_checkpoint_interval s' = save_checkpoint_interval s
           \<and> validation_interval s' = validation_interval s
           \<and> calls_of (save_checkpoint_interval s) (validation_interval s) {e} new"
proof -
  obtain o1 m1 where te: "te e (optimizer s) (model s) = (o1, m1)"
    by (cases "te e (optimizer s) (model s)")
  define s1 where "s1 = s\<lparr>optimizer := o1, model := m1\<rparr>"
  obtain flag s2 where ib: "is_best_epoch s1 (ve e m1) (save_max_metric_score s) = (flag, s2)"
    by (cases "is_best_epoch s1 (ve e m1) (save_max_metric_score s)")
  have inv: "save_checkpoint_interval s2 = save_checkpoint_interval s"
    "validation_interval s2 = validation_interval s"
    using is_best_epoch_intervals [of s1 "ve e m1" "save_max_metric_score s"] ib
    by (simp_all add: s1_def)
  show ?thesis
    using assms te ib inv
    by (auto simp: train_body_def py_mod_def Let_def s1_def calls_of_def)
qed

lemma calls_of_empty: "calls_of i v {} []"
  by (simp add: calls_of_def)

lemma calls_of_append:
  assumes "calls_of i v A xs" and "calls_of i v B ys"
  shows "calls_of i v (A \<union> B) (xs @ ys)"
  unfolding calls_of_def
proof (intro allI conjI)
  fix e
  show "((e, Train_epoch) \<in> set (xs @ ys)) = (e \<in> A \<union> B)"
    using assms by (auto simp: calls_of_def)
  show "((e, Save_checkpoint False) \<in> set (xs @ ys)) = (e \<in> A \<union> B \<and> i \<noteq> 0 \<and> e mod i = 0)"
    using assms by (auto simp: calls_of_def)
  show "((e, Validation_epoch) \<in> set (xs @ ys)) = (e \<in> A \<union> B \<and> e mod v = 0)"
    using assms by (auto simp: calls_of_def)
  have x: "(\<exists>score flag. (e, Is_best_epoch score flag) \<in> set xs) = (e \<in> A \<and> e mod v = 0)"
    using assms(1) by (simp add: calls_of_def)
  have y: "(\<exists>score flag. (e, Is_best_epoch score flag) \<in> set ys) = (e \<in> B \<and> e mod v = 0)"
    using assms(2) by (simp add: calls_of_def)
  have xy: "(\<exists>score flag. (e, Is_best_epoch score flag) \<in> set (xs @ ys))
        = ((\<exists>score flag. (e, Is_best_epoch score flag) \<in> set xs)
           \<or> (\<exists>score flag. (e, Is_best_epoch score flag) \<in> set ys))"
    by auto
  show "(\<exists>score flag. (e, Is_best_epoch score flag) \<in> set (xs @ ys))
        = (e \<in> A \<union> B \<and> e mod v = 0)"
    unfolding xy x y by auto
  have x': "((e, Save_checkpoint True) \<in> set xs) = (\<exists>score. (e, Is_best_epoch score True) \<in> set xs)"
    using assms(1) by (simp add: calls_of_def)
  have y': "((e, Save_checkpoint True) \<in> set ys) = (\<exists>score. (e, Is_best_epoch score True) \<in> set ys)"
    using assms(2) by (simp add: calls_of_def)
  show "((e, Save_checkpoint True) \<in> set (xs @ ys))
        = (\<exists>score. (e, Is_best_epoch score True) \<in> set (xs @ ys))"
    using x' y' by auto
qed

lemma train_loop_calls:
  assumes "validation_interval s \<noteq> 0"
  shows "\<exists>s' fs' new. train_loop te ve es (s, fs, calls) = Inr (s', fs', calls @ new)
           \<and> calls_of (save_checkpoint_interval s) (validation_interval s) (set es) new"
  using assms
proof (induction es arbitrary: s fs calls)
  case Nil
  then show ?case by (simp add: calls_of_empty)
next
  case (Cons e es)
  obtain s1 fs1 new1 where b: "train_body te ve e (s, fs, calls) = Inr (s1, fs1, calls @ new1)"
      "save_checkpoint_interval s1 = save_checkpoint_interval s"
      "validation_interval s1 = validation_interval s"
      "calls_of (save_checkpoint_interval s) (validation_interval s) {e} new1"
    using train_body_calls [OF Cons.prems] by blast
  have "validation_interval s1 \<noteq> 0" using b(3) Cons.prems by simp
  from Cons.IH [OF this, of fs1 "calls @ new1"] obtain s2 fs2 new2 where
    l: "train_loop te ve es (s1, fs1, calls @ new1) = Inr (s2, fs2, (calls @ new1) @ new2)"
       "calls_of (save_checkpoint_interval s1) (validation_interval s1) (set es) new2"
    by blast
  have "calls_of (save_checkpoint_interval s) (validation_interval s) ({e} \<union> set es) (new1 @ new2)"
    using calls_of_append [OF b(4)] l(2) b(2,3) by simp
  then show ?case using b(1) l(1) by simp
qed

lemma train_calls:
  assumes "validation_interval s \<noteq> 0"
  shows "\<exists>s' fs' calls. train te ve s fs = Inr (s', fs', calls)
           \<and> calls_of (save_checkpoint_interval s) (validation_interval s)
                {start_epoch s..epochs s} calls"
  using train_loop_calls [OF assms, of te ve "[start_epoch s..epochs s]" fs "[]"]
  by (simp add: train_def)

text \<open>
  The loop over a list of epochs followed by another is the two loops in sequence.
\<close>

lemma train_loop_append:
  "train_loop te ve (xs @ ys) st = then_do (train_loop te ve xs st) (train_loop te ve ys)"
  by (induction xs arbitrary: st) (auto simp: then_do_def split: sum.splits)

text \<open>
  What one iteration does to the trainer, to the files and to the log, in terms of
  the two tests of the loop.
\<close>

lemma train_body_exact:
  assumes "validation_interval s \<noteq> 0"
  shows "train_body te ve e (s, fs, calls) =
     Inr (if e mod validation_interval s = 0
          then snd (is_best_epoch (after_train_epoch te e s)
                      (ve e (model (after_train_epoch te e s))) (save_max_metric_score s))
          else after_train_epoch te e s,
          (if e mod validation_interval s = 0
              \<and> fst (is_best_epoch (after_train_epoch te e s)
                        (ve e (model (after_train_epoch te e s))) (save_max_metric_score s))
           then save_checkpoint
                  (snd (is_best_epoch (after_train_epoch te e s)
                          (ve e (model (after_train_epoch te e s))) (save_max_metric_score s)))
                  e True
           else id)
            ((if save_checkpoint_interval s \<noteq> 0 \<and> e mod save_checkpoint_interval s = 0
              then save_checkpoint (after_train_epoch te e s) e False else id) fs),
          calls @ [(e, Train_epoch)]
            @ (if save_checkpoint_interval s \<noteq> 0 \<and> e mod save_checkpoint_interval s = 0
               then [(e, Save_checkpoint False)] else [])
            @ (if e mod validation_interval s = 0
               then [(e, Validation_epoch),
                     (e, Is_best_epoch (ve e (model (after_train_epoch te e s)))
                           (fst (is_best_epoch (after_train_epoch te e s)
                                   (ve e (model (after_train_epoch te e s)))
                                   (save_max_metric_score s))))]
                    @ (if fst (is_best_epoch (after_train_epoch te e s)
                                 (ve e (model (after_train_epoch te e s)))
                                 (save_max_metric_score s))
                       then [(e, Save_checkpoint True)] else [])
               else []))"
proof -
  obtain o1 m1 where te: "te e (optimizer s) (model s) = (o1, m1)"
    by (cases "te e (optimizer s) (model s)")
  obtain flag s2 where ib:
    "is_best_epoch (s\<lparr>optimizer := o1, model := m1\<rparr>) (ve e m1) (save_max_metric_score s) = (flag, s2)"
    by (cases "is_best_epoch (s\<lparr>optimizer := o1, model := m1\<rparr>) (ve e m1) (save_max_metric_score s)")
  show ?thesis
    using assms te ib
    by (simp add: train_body_def after_train_epoch_def py_mod_def Let_def)
qed

lemma is_best_epoch_frame:
  "save_checkpoint_interval (snd (is_best_epoch s score smms)) = save_checkpoint_interval s
   \<and> validation_interval (snd (is_best_epoch s score smms)) = validation_interval s
   \<and> save_max_metric_score (snd (is_best_epoch s score smms)) = save_max_metric_score s
   \<and> checkpoints_dir (snd (is_best_epoch s score smms)) = checkpoints_dir s
   \<and> optimizer (snd (is_best_epoch s score smms)) = optimizer s
   \<and> model (snd (is_best_epoch s score smms)) = model s
   \<and> best_score (snd (is_best_epoch s score smms))
       = (if fst (is_best_epoch s score smms) then score else best_score s)"
  by (simp add: is_best_epoch_def)

lemma after_train_epoch_frame:
  "save_checkpoint_interval (after_train_epoch te e s) = save_checkpoint_interval s
   \<and> validation_interval (after_train_epoch te e s) = validation_interval s
   \<and> save_max_metric_score (after_train_epoch te e s) = save_max_metric_score s
   \<and> checkpoints_dir (after_train_epoch te e s) = checkpoints_dir s
   \<and> best_score (after_train_epoch te e s) = best_score s"
  by (simp add: after_train_epoch_def split: prod.splits)

text \<open>
  A save of one epoch leaves the per-epoch file of every other epoch as it was.
\<close>

lemma save_checkpoint_other_epoch:
  "e' \<noteq> e \<Longrightarrow>
   save_checkpoint s e b fs (checkpoints_dir s @ [epoch_model e'])
     = fs (checkpoints_dir s @ [epoch_model e'])"
  using epoch_model_inj [of e' e] epoch_model_not_fixed [of e']
  by (auto simp: save_checkpoint_apply)

text \<open>
  One iteration keeps the intervals, the flag and the directory of the trainer, and
  leaves the per-epoch file of every other epoch as it was; so does the whole loop for
  the epochs outside its list.
\<close>

lemma train_body_frame:
  assumes "validation_interval s \<noteq> 0"
  shows "\<exists>s' fs' calls'. train_body te ve e (s, fs, calls) = Inr (s', fs', calls')
           \<and> save_checkpoint_interval s' = save_checkpoint_interval s
           \<and> validation_interval s' = validation_interval s
           \<and> save_max_metric_score s' = save_max_metric_score s
           \<and> checkpoints_dir s' = checkpoints_dir s
           \<and> (\<forall>e'. e' \<noteq> e \<longrightarrow> fs' (checkpoints_dir s @ [epoch_model e'])
                                  = fs (checkpoints_dir s @ [epoch_model e']))"
proof -
  let ?st = "after_train_epoch te e s"
  let ?check = "is_best_epoch ?st (ve e (model ?st)) (save_max_metric_score s)"
  have d1: "checkpoints_dir ?st = checkpoints_dir s"
    using after_train_epoch_frame [of te e s] by simp
  have d2: "checkpoints_dir (snd ?check) = checkpoints_dir s"
    using is_best_epoch_frame [of ?st "ve e (model ?st)" "save_max_metric_score s"] d1 by simp
  have other1: "save_checkpoint ?st e False g (checkpoints_dir s @ [epoch_model e'])
                  = g (checkpoints_dir s @ [epoch_model e'])" if "e' \<noteq> e" for e' g
    using save_checkpoint_other_epoch [OF that, of ?st False g] d1 by simp
  have other2: "save_checkpoint (snd ?check) e True g (checkpoints_dir s @ [epoch_model e'])
                  = g (checkpoints_dir s @ [epoch_model e'])" if "e' \<noteq> e" for e' g
    using save_checkpoint_other_epoch [OF that, of "snd ?check" True g] d2 by simp
  show ?thesis
    using after_train_epoch_frame [of te e s]
      is_best_epoch_frame [of ?st "ve e (model ?st)" "save_max_metric_score s"]
    by (simp add: train_body_exact [OF assms] other1 other2)
qed

lemma train_loop_frame:
  assumes "validation_interval s \<noteq> 0"
  shows "\<exists>s' fs' calls'. train_loop te ve es (s, fs, calls) = Inr (s', fs', calls')
           \<and> save_checkpoint_interval s' = save_checkpoint_interval s
           \<and> validation_interval s' = validation_interval s
           \<and> save_max_metric_score s' = save_max_metric_score s
           \<and> checkpoints_dir s' = checkpoints_dir s
           \<and> (\<forall>e'. e' \<notin> set es \<longrightarrow> fs' (checkpoints_dir s @ [epoch_model e'])
                                     = fs (checkpoints_dir s @ [epoch_model e']))"
  using assms
proof (induction es arbitrary: s fs calls)
  case Nil
  then show ?case by simp
next
  case (Cons e es)
  obtain s1 fs1 calls1 where b: "train_body te ve e (s, fs, calls) = Inr (s1, fs1, calls1)"
      "save_checkpoint_interval s1 = save_checkpoint_interval s"
      "validation_interval s1 = validation_interval s"
      "save_max_metric_score s1 = save_max_metric_score s"
      "checkpoints_dir s1 = checkpoints_dir s"
      "\<forall>e'. e' \<noteq> e \<longrightarrow> fs1 (checkpoints_dir s @ [epoch_model e'])
                          = fs (checkpoints_dir s @ [epoch_model e'])"
    using train_body_frame [OF Cons.prems, of te ve e fs calls] by blast
  have "validation_interval s1 \<noteq> 0" using b(3) Cons.prems by simp
  from Cons.IH [OF this, of fs1 calls1] obtain s2 fs2 calls2 where
    l: "train_loop te ve es (s1, fs1, calls1) = Inr (s2, fs2, calls2)"
       "save_checkpoint_interval s2 = save_checkpoint_interval s1"
       "validation_interval s2 = validation_interval s1"
       "save_max_metric_score s2 = save_max_metric_score s1"
       "checkpoints_dir s2 = checkpoints_dir s1"
       "\<forall>e'. e' \<notin> set es \<longrightarrow> fs2 (checkpoints_dir s1 @ [epoch_model e'])
                             = fs1 (checkpoints_dir s1 @ [epoch_model e'])"
    by blast
  show ?case
    using b l by simp
qed

text \<open>
  No call of an epoch outside the set of a run's epochs is in its log.
\<close>

lemma calls_of_outside:
  assumes "calls_of i v E new" and "e \<notin> E"
  shows "(e, c) \<notin> set new"
proof (cases c)
  case Train_epoch
  then show ?thesis using assms by (simp add: calls_of_def)
next
  case Validation_epoch
  then show ?thesis using assms by (simp add: calls_of_def)
next
  case (Is_best_epoch score flag)
  have "\<not> (\<exists>score flag. (e, Is_best_epoch score flag) \<in> set new)"
    using assms by (simp add: calls_of_def)
  then show ?thesis using Is_best_epoch by blast
next
  case (Save_checkpoint b)
  have none: "\<not> (\<exists>score flag. (e, Is_best_epoch score flag) \<in> set new)"
    using assms by (simp add: calls_of_def)
  show ?thesis
  proof (cases b)
    case True
    have "((e, Save_checkpoint True) \<in> set new)
            = (\<exists>score. (e, Is_best_epoch score True) \<in> set new)"
      using assms(1) by (simp add: calls_of_def)
    then show ?thesis using none True Save_checkpoint by auto
  next
    case False
    then show ?thesis using assms Save_checkpoint by (simp add: calls_of_def)
  qed
qed

text \<open>
  The run at one of its epochs \<open>e\<close>: the loop up to \<open>e - 1\<close>, the iteration of \<open>e\<close>, and
  the loop from \<open>e + 1\<close>. The later epochs leave the per-epoch file of \<open>e\<close> as the
  iteration of \<open>e\<close> left it, and the earlier ones as it was at the start; the calls of
  \<open>e\<close> in the log are those of its iteration.
\<close>

lemma train_at_epoch:
  assumes v: "validation_interval s \<noteq> 0"
    and e: "e \<in> {start_epoch s..epochs s}"
    and run: "train te ve s fs = Inr (s', fs', calls)"
  shows "\<exists>s0 fs0 calls0 s1 fs1 calls1.
      train_loop te ve [start_epoch s..e - 1] (s, fs, []) = Inr (s0, fs0, calls0)
    \<and> train_loop te ve [start_epoch s..e] (s, fs, []) = Inr (s1, fs1, calls1)
    \<and> train_body te ve e (s0, fs0, calls0) = Inr (s1, fs1, calls1)
    \<and> save_checkpoint_interval s0 = save_checkpoint_interval s
    \<and> validation_interval s0 = validation_interval s
    \<and> save_max_metric_score s0 = save_max_metric_score s
    \<and> checkpoints_dir s0 = checkpoints_dir s
    \<and> fs0 (checkpoints_dir s @ [epoch_model e]) = fs (checkpoints_dir s @ [epoch_model e])
    \<and> fs' (checkpoints_dir s @ [epoch_model e]) = fs1 (checkpoints_dir s @ [epoch_model e])
    \<and> (\<forall>c. ((e, c) \<in> set calls) = ((e, c) \<in> set (drop (length calls0) calls1)))"
proof -
  have le: "start_epoch s \<le> e" "e \<le> epochs s" using e by simp_all
  have split: "[start_epoch s..epochs s] = [start_epoch s..e - 1] @ e # [e + 1..epochs s]"
    using upto_split3 [OF le] .
  have upto_e: "[start_epoch s..e] = [start_epoch s..e - 1] @ [e]"
    using upto_rec2 [OF le(1)] .
  obtain s0 fs0 calls0 where p: "train_loop te ve [start_epoch s..e - 1] (s, fs, []) = Inr (s0, fs0, calls0)"
      "save_checkpoint_interval s0 = save_checkpoint_interval s"
      "validation_interval s0 = validation_interval s"
      "save_max_metric_score s0 = save_max_metric_score s"
      "checkpoints_dir s0 = checkpoints_dir s"
      "\<forall>e'. e' \<notin> set [start_epoch s..e - 1] \<longrightarrow> fs0 (checkpoints_dir s @ [epoch_model e'])
                                     = fs (checkpoints_dir s @ [epoch_model e'])"
    using train_loop_frame [OF v, of te ve "[start_epoch s..e - 1]" fs "[]"] by blast
  obtain new0 where c0: "train_loop te ve [start_epoch s..e - 1] (s, fs, []) = Inr (s0, fs0, [] @ new0)"
      "calls_of (save_checkpoint_interval s) (validation_interval s) (set [start_epoch s..e - 1]) new0"
    using train_loop_calls [OF v, of te ve "[start_epoch s..e - 1]" fs "[]"] p(1) by auto
  have calls0: "calls0 = new0" using c0(1) p(1) by simp
  have v0: "validation_interval s0 \<noteq> 0" using p(3) v by simp
  obtain s1 fs1 new1 where b: "train_body te ve e (s0, fs0, calls0) = Inr (s1, fs1, calls0 @ new1)"
      "validation_interval s1 = validation_interval s0"
      "save_checkpoint_interval s1 = save_checkpoint_interval s0"
    using train_body_calls [OF v0, of te ve e fs0 calls0] by blast
  have d1: "checkpoints_dir s1 = checkpoints_dir s0"
    using train_body_frame [OF v0, of te ve e fs0 calls0] b(1) by auto
  have v1: "validation_interval s1 \<noteq> 0" using b(2) v0 by simp
  obtain s2 fs2 calls2 where q: "train_loop te ve [e + 1..epochs s] (s1, fs1, calls0 @ new1) = Inr (s2, fs2, calls2)"
      "\<forall>e'. e' \<notin> set [e + 1..epochs s] \<longrightarrow> fs2 (checkpoints_dir s1 @ [epoch_model e'])
                                     = fs1 (checkpoints_dir s1 @ [epoch_model e'])"
    using train_loop_frame [OF v1, of te ve "[e + 1..epochs s]" fs1 "calls0 @ new1"] by blast
  obtain new2 where c2: "train_loop te ve [e + 1..epochs s] (s1, fs1, calls0 @ new1)
                           = Inr (s2, fs2, (calls0 @ new1) @ new2)"
      "calls_of (save_checkpoint_interval s1) (validation_interval s1) (set [e + 1..epochs s]) new2"
    using train_loop_calls [OF v1, of te ve "[e + 1..epochs s]" fs1 "calls0 @ new1"] q(1) by auto
  have to_e: "train_loop te ve [start_epoch s..e] (s, fs, []) = Inr (s1, fs1, calls0 @ new1)"
    by (simp add: upto_e train_loop_append p(1) b(1))
  have whole: "train te ve s fs = Inr (s2, fs2, (calls0 @ new1) @ new2)"
    unfolding train_def split
    using train_loop_append [of te ve "[start_epoch s..e - 1]" "e # [e + 1..epochs s]" "(s, fs, [])"]
    by (simp add: p(1) b(1) c2(1))
  have same: "s' = s2" "fs' = fs2" "calls = (calls0 @ new1) @ new2"
    using run whole by simp_all
  have out0: "(e, c) \<notin> set calls0" for c
    using calls_of_outside [OF c0(2), of e c] calls0 by simp
  have out2: "(e, c) \<notin> set new2" for c
    using calls_of_outside [OF c2(2), of e c] by simp
  have file0: "fs0 (checkpoints_dir s @ [epoch_model e]) = fs (checkpoints_dir s @ [epoch_model e])"
    using p(6) by simp
  have file2: "fs' (checkpoints_dir s @ [epoch_model e]) = fs1 (checkpoints_dir s @ [epoch_model e])"
    using q(2) d1 p(5) same(2) by simp
  have log: "\<forall>c. ((e, c) \<in> set calls) = ((e, c) \<in> set (drop (length calls0) (calls0 @ new1)))"
    using out0 out2 same(3) by auto
  show ?thesis
    using p(1-5) to_e b(1) file0 file2 log by blast
qed

text \<open>
  C2. In \<^verbatim>\<open>train()\<close>, on a trainer whose \<^verbatim>\<open>validation_interval\<close> is at least 1
  (the constructor asserts it), the run returns normally and, for every epoch \<open>e\<close>
  from \<^verbatim>\<open>start_epoch\<close> through \<^verbatim>\<open>epochs\<close>: a periodic checkpoint is saved if and only
  if \<^verbatim>\<open>save_checkpoint_interval\<close> is not 0 and \<open>e\<close> is a multiple of it; the validation
  and the best-epoch check are run if and only if \<open>e\<close> is a multiple of
  \<^verbatim>\<open>validation_interval\<close>; and a best-model checkpoint is saved if and only if that
  check returned True. This is stated three times over: on the log of the calls; on
  the trainer and the files that the iteration of \<open>e\<close> leaves, from the trainer \<open>s0\<close>
  and the files \<open>fs0\<close> that the epochs before \<open>e\<close> left; and on the per-epoch file of
  \<open>e\<close> at the end of the run, which holds the best-model save of \<open>e\<close> if there was
  one, else its periodic save if there was one, and else is as it was before the run.
\<close>

theorem train_cadence:
  assumes "1 \<le> validation_interval s"
  shows "\<exists>s' fs' calls. train train_epoch validation_epoch s fs = Inr (s', fs', calls)
     \<and> (\<forall>e \<in> {start_epoch s..epochs s}.
          ((e, Save_checkpoint False) \<in> set calls)
            = (save_checkpoint_interval s \<noteq> 0 \<and> e mod save_checkpoint_interval s = 0)
        \<and> ((e, Validation_epoch) \<in> set calls) = (e mod validation_interval s = 0)
        \<and> (\<exists>score flag. (e, Is_best_epoch score flag) \<in> set calls)
            = (e mod validation_interval s = 0)
        \<and> ((e, Save_checkpoint True) \<in> set calls)
            = (\<exists>score. (e, Is_best_epoch score True) \<in> set calls)
        \<and> (\<exists>s0 fs0 calls0 s1 fs1 calls1.
              train_loop train_epoch validation_epoch [start_epoch s..e - 1] (s, fs, [])
                = Inr (s0, fs0, calls0)
            \<and> train_loop train_epoch validation_epoch [start_epoch s..e] (s, fs, [])
                = Inr (s1, fs1, calls1)
            \<and> (let st = after_train_epoch train_epoch e s0;
                    score = validation_epoch e (model st);
                    check = is_best_epoch st score (save_max_metric_score s);
                    periodic = (save_checkpoint_interval s \<noteq> 0
                                \<and> e mod save_checkpoint_interval s = 0);
                    validated = (e mod validation_interval s = 0)
                in s1 = (if validated then snd check else st)
                 \<and> fs1 = (if validated \<and> fst check then save_checkpoint (snd check) e True else id)
                           ((if periodic then save_checkpoint st e False else id) fs0)
                 \<and> fs' (checkpoints_dir s @ [epoch_model e]) =
                     (if validated \<and> fst check
                      then Some \<lparr>ck_epoch = e, ck_best_score = score,
                                 ck_optimizer = optimizer st, ck_model = model st\<rparr>
                      else if periodic
                      then Some \<lparr>ck_epoch = e, ck_best_score = best_score s0,
                                 ck_optimizer = optimizer st, ck_model = model st\<rparr>
                      else fs (checkpoints_dir s @ [epoch_model e]))
                 \<and> (\<forall>sc fl. ((e, Is_best_epoch sc fl) \<in> set calls)
                              = (validated \<and> sc = score \<and> fl = fst check))
                 \<and> ((e, Save_checkpoint True) \<in> set calls) = (validated \<and> fst check)
                 \<and> ((e, Save_checkpoint False) \<in> set calls) = periodic)))"
proof -
  have v: "validation_interval s \<noteq> 0" using assms by simp
  from train_calls [OF v, of train_epoch validation_epoch fs]
  obtain s' fs' calls where
    r: "train train_epoch validation_epoch s fs = Inr (s', fs', calls)"
    and c: "calls_of (save_checkpoint_interval s) (validation_interval s)
              {start_epoch s..epochs s} calls"
    by blast
  have "((e, Save_checkpoint False) \<in> set calls)
            = (save_checkpoint_interval s \<noteq> 0 \<and> e mod save_checkpoint_interval s = 0)
        \<and> ((e, Validation_epoch) \<in> set calls) = (e mod validation_interval s = 0)
        \<and> (\<exists>score flag. (e, Is_best_epoch score flag) \<in> set calls)
            = (e mod validation_interval s = 0)
        \<and> ((e, Save_checkpoint True) \<in> set calls)
            = (\<exists>score. (e, Is_best_epoch score True) \<in> set calls)
        \<and> (\<exists>s0 fs0 calls0 s1 fs1 calls1.
              train_loop train_epoch validation_epoch [start_epoch s..e - 1] (s, fs, [])
                = Inr (s0, fs0, calls0)
            \<and> train_loop train_epoch validation_epoch [start_epoch s..e] (s, fs, [])
                = Inr (s1, fs1, calls1)
            \<and> (let st = after_train_epoch train_epoch e s0;
                    score = validation_epoch e (model st);
                    check = is_best_epoch st score (save_max_metric_score s);
                    periodic = (save_checkpoint_interval s \<noteq> 0
                                \<and> e mod save_checkpoint_interval s = 0);
                    validated = (e mod validation_interval s = 0)
                in s1 = (if validated then snd check else st)
                 \<and> fs1 = (if validated \<and> fst check then save_checkpoint (snd check) e True else id)
                           ((if periodic then save_checkpoint st e False else id) fs0)
                 \<and> fs' (checkpoints_dir s @ [epoch_model e]) =
                     (if validated \<and> fst check
                      then Some \<lparr>ck_epoch = e, ck_best_score = score,
                                 ck_optimizer = optimizer st, ck_model = model st\<rparr>
                      else if periodic
                      then Some \<lparr>ck_epoch = e, ck_best_score = best_score s0,
                                 ck_optimizer = optimizer st, ck_model = model st\<rparr>
                      else fs (checkpoints_dir s @ [epoch_model e]))
                 \<and> (\<forall>sc fl. ((e, Is_best_epoch sc fl) \<in> set calls)
                              = (validated \<and> sc = score \<and> fl = fst check))
                 \<and> ((e, Save_checkpoint True) \<in> set calls) = (validated \<and> fst check)
                 \<and> ((e, Save_checkpoint False) \<in> set calls) = periodic))"
    if e: "e \<in> {start_epoch s..epochs s}" for e
  proof -
    have log: "((e, Save_checkpoint False) \<in> set calls)
            = (save_checkpoint_interval s \<noteq> 0 \<and> e mod save_checkpoint_interval s = 0)"
        "((e, Validation_epoch) \<in> set calls) = (e mod validation_interval s = 0)"
        "(\<exists>score flag. (e, Is_best_epoch score flag) \<in> set calls)
            = (e mod validation_interval s = 0)"
        "((e, Save_checkpoint True) \<in> set calls)
            = (\<exists>score. (e, Is_best_epoch score True) \<in> set calls)"
      using c e by (simp_all add: calls_of_def)
    obtain s0 fs0 calls0 s1 fs1 calls1 where a:
        "train_loop train_epoch validation_epoch [start_epoch s..e - 1] (s, fs, []) = Inr (s0, fs0, calls0)"
        "train_loop train_epoch validation_epoch [start_epoch s..e] (s, fs, []) = Inr (s1, fs1, calls1)"
        "train_body train_epoch validation_epoch e (s0, fs0, calls0) = Inr (s1, fs1, calls1)"
        "save_checkpoint_interval s0 = save_checkpoint_interval s"
        "validation_interval s0 = validation_interval s"
        "save_max_metric_score s0 = save_max_metric_score s"
        "checkpoints_dir s0 = checkpoints_dir s"
        "fs0 (checkpoints_dir s @ [epoch_model e]) = fs (checkpoints_dir s @ [epoch_model e])"
        "fs' (checkpoints_dir s @ [epoch_model e]) = fs1 (checkpoints_dir s @ [epoch_model e])"
        "\<forall>c. ((e, c) \<in> set calls) = ((e, c) \<in> set (drop (length calls0) calls1))"
      using train_at_epoch [OF v e r] by blast
    let ?st = "after_train_epoch train_epoch e s0"
    let ?score = "validation_epoch e (model ?st)"
    let ?check = "is_best_epoch ?st ?score (save_max_metric_score s)"
    have v0: "validation_interval s0 \<noteq> 0" using a(5) v by simp
    note ex = train_body_exact [OF v0, of train_epoch validation_epoch e fs0 calls0,
        unfolded a(3) a(4) a(5) a(6)]
    have s1: "s1 = (if e mod validation_interval s = 0 then snd ?check else ?st)"
      using ex by simp
    have fs1: "fs1 = (if e mod validation_interval s = 0 \<and> fst ?check
                      then save_checkpoint (snd ?check) e True else id)
                       ((if save_checkpoint_interval s \<noteq> 0 \<and> e mod save_checkpoint_interval s = 0
                         then save_checkpoint ?st e False else id) fs0)"
      using ex by simp
    have new: "drop (length calls0) calls1 =
            [(e, Train_epoch)]
            @ (if save_checkpoint_interval s \<noteq> 0 \<and> e mod save_checkpoint_interval s = 0
               then [(e, Save_checkpoint False)] else [])
            @ (if e mod validation_interval s = 0
               then [(e, Validation_epoch), (e, Is_best_epoch ?score (fst ?check))]
                    @ (if fst ?check then [(e, Save_checkpoint True)] else [])
               else [])"
      using ex by auto
    have dst: "checkpoints_dir ?st = checkpoints_dir s" "best_score ?st = best_score s0"
      using after_train_epoch_frame [of train_epoch e s0] a(7) by simp_all
    have chk: "checkpoints_dir (snd ?check) = checkpoints_dir s"
        "optimizer (snd ?check) = optimizer ?st" "model (snd ?check) = model ?st"
        "fst ?check \<Longrightarrow> best_score (snd ?check) = ?score"
      using is_best_epoch_frame [of ?st ?score "save_max_metric_score s"] dst by simp_all
    have efile: "fs' (checkpoints_dir s @ [epoch_model e]) =
                     (if e mod validation_interval s = 0 \<and> fst ?check
                      then Some \<lparr>ck_epoch = e, ck_best_score = ?score,
                                 ck_optimizer = optimizer ?st, ck_model = model ?st\<rparr>
                      else if save_checkpoint_interval s \<noteq> 0 \<and> e mod save_checkpoint_interval s = 0
                      then Some \<lparr>ck_epoch = e, ck_best_score = best_score s0,
                                 ck_optimizer = optimizer ?st, ck_model = model ?st\<rparr>
                      else fs (checkpoints_dir s @ [epoch_model e]))"
      using a(8) chk dst by (simp add: a(9) fs1 save_checkpoint_apply)
    have best: "\<forall>sc fl. ((e, Is_best_epoch sc fl) \<in> set calls)
                  = (e mod validation_interval s = 0 \<and> sc = ?score \<and> fl = fst ?check)"
      using a(10) by (auto simp: new)
    have save_best: "((e, Save_checkpoint True) \<in> set calls) = (e mod validation_interval s = 0 \<and> fst ?check)"
      using a(10) by (auto simp: new)
    have periodic: "((e, Save_checkpoint False) \<in> set calls)
            = (save_checkpoint_interval s \<noteq> 0 \<and> e mod save_checkpoint_interval s = 0)"
      by (rule log(1))
    show ?thesis
      unfolding Let_def
    proof (intro conjI exI)
      show "train_loop train_epoch validation_epoch [start_epoch s..e - 1] (s, fs, [])
              = Inr (s0, fs0, calls0)" by (rule a(1))
      show "train_loop train_epoch validation_epoch [start_epoch s..e] (s, fs, [])
              = Inr (s1, fs1, calls1)" by (rule a(2))
      show "s1 = (if e mod validation_interval s = 0 then snd ?check else ?st)" by (rule s1)
      show "fs1 = (if e mod validation_interval s = 0 \<and> fst ?check
                      then save_checkpoint (snd ?check) e True else id)
                       ((if save_checkpoint_interval s \<noteq> 0 \<and> e mod save_checkpoint_interval s = 0
                         then save_checkpoint ?st e False else id) fs0)" by (rule fs1)
      show "fs' (checkpoints_dir s @ [epoch_model e]) =
                     (if e mod validation_interval s = 0 \<and> fst ?check
                      then Some \<lparr>ck_epoch = e, ck_best_score = ?score,
                                 ck_optimizer = optimizer ?st, ck_model = model ?st\<rparr>
                      else if save_checkpoint_interval s \<noteq> 0 \<and> e mod save_checkpoint_interval s = 0
                      then Some \<lparr>ck_epoch = e, ck_best_score = best_score s0,
                                 ck_optimizer = optimizer ?st, ck_model = model ?st\<rparr>
                      else fs (checkpoints_dir s @ [epoch_model e]))" by (rule efile)
      show "\<forall>sc fl. ((e, Is_best_epoch sc fl) \<in> set calls)
                  = (e mod validation_interval s = 0 \<and> sc = ?score \<and> fl = fst ?check)"
        by (rule best)
      show "((e, Save_checkpoint True) \<in> set calls)
              = (e mod validation_interval s = 0 \<and> fst ?check)" by (rule save_best)
    qed (rule log periodic)+
  qed
  note per_epoch = this
  show ?thesis
    by (rule exI [of _ s'], rule exI [of _ fs'], rule exI [of _ calls], rule conjI [OF r],
        rule ballI, rule per_epoch, assumption)
qed

text \<open>
  Epochs 1 to 4 with both intervals 2, the score 5 at epoch 2 and 1 at epoch 4: the log
  of the run, and the files \<^verbatim>\<open>model_0001.tar\<close> to \<^verbatim>\<open>model_0004.tar\<close>,
  \<^verbatim>\<open>best_model.tar\<close> and \<^verbatim>\<open>latest_model.tar\<close> after it.
\<close>

theorem train_cadence_witness:
  "map_sum id
     (\<lambda>r. (snd (snd r),
           map (\<lambda>name. fst (snd r) [''exp'', ''checkpoints'', name])
             [''model_0001.tar'', ''model_0002.tar'', ''model_0003.tar'', ''model_0004.tar'',
              ''best_model.tar'', ''latest_model.tar'']))
     (train (\<lambda>e opt mdl. (opt + 1, mdl + 1)) (\<lambda>e mdl. if e = 2 then Finite 5 else Finite 1)
        \<lparr>optimizer = (0::nat), model = (0::nat), epochs = (4::int), save_checkpoint_interval = 2,
         validation_interval = 2, save_max_metric_score = True, start_epoch = 1,
         best_score = NegInf, checkpoints_dir = [''exp'', ''checkpoints'']\<rparr> Map.empty)
   = Inr ([(1, Train_epoch),
           (2, Train_epoch), (2, Save_checkpoint False), (2, Validation_epoch),
           (2, Is_best_epoch (Finite 5) True), (2, Save_checkpoint True),
           (3, Train_epoch),
           (4, Train_epoch), (4, Save_checkpoint False), (4, Validation_epoch),
           (4, Is_best_epoch (Finite 1) False)],
          [None,
           Some \<lparr>ck_epoch = 2, ck_best_score = Finite 5, ck_optimizer = 2, ck_model = 2\<rparr>,
           None,
           Some \<lparr>ck_epoch = 4, ck_best_score = Finite 5, ck_optimizer = 4, ck_model = 4\<rparr>,
           Some \<lparr>ck_epoch = 2, ck_best_score = Finite 5, ck_optimizer = 2, ck_model = 2\<rparr>,
           Some \<lparr>ck_epoch = 4, ck_best_score = Finite 5, ck_optimizer = 4, ck_model = 4\<rparr>])"
proof -
  let ?s = "\<lparr>optimizer = (0::nat), model = (0::nat), epochs = (4::int), save_checkpoint_interval = 2,
         validation_interval = 2, save_max_metric_score = True, start_epoch = 1,
         best_score = NegInf, checkpoints_dir = [''exp'', ''checkpoints'']\<rparr>"
  have h: "1 \<le> validation_interval ?s" by simp
  have pad: "replicate 3 (CHR ''0'') = ''000''"
    by (simp add: numeral_3_eq_3)
  have names: "epoch_model 2 = ''model_0002.tar''" "epoch_model 4 = ''model_0004.tar''"
    by (simp_all add: epoch_model_def str_int_def zfill_def str_nat.simps digit_char_def pad)
  have evaluated: ?thesis
    by (simp add: upto.simps train_def train_body_def py_mod_def is_best_epoch_def float_ge_def
          Let_def save_checkpoint_def names latest_model_def best_model_def)
  obtain s' fs' calls where
    returns: "train (\<lambda>e opt mdl. (opt + 1, mdl + 1)) (\<lambda>e mdl. if e = 2 then Finite 5 else Finite 1)
       ?s Map.empty = Inr (s', fs', calls)"
    using train_cadence [OF h, of "\<lambda>e opt mdl. (opt + 1, mdl + 1)"
        "\<lambda>e mdl. if e = 2 then Finite 5 else Finite 1" Map.empty]
    by blast
  show ?thesis
    using returns evaluated by - assumption
qed



subsection \<open>Assertions\<close>

text \<open>
  C5. \<^verbatim>\<open>_resume_checkpoint\<close> raises \<^verbatim>\<open>AssertionError\<close> exactly when
  \<^verbatim>\<open>latest_model.tar\<close> is missing from the checkpoint directory, and loads otherwise;
  \<^verbatim>\<open>_preload_model\<close> raises it exactly when the given path does not exist;
  \<^verbatim>\<open>metrics_visualization\<close> raises it exactly when \<^verbatim>\<open>"STOI"\<close> or \<^verbatim>\<open>"WB_PESQ"\<close>
  is missing from \<^verbatim>\<open>metrics_list\<close> or a requested name is not registered. Nothing
  catches the error: a constructor that resumes without a latest checkpoint, or that
  preloads from a missing path, ends with the \<^verbatim>\<open>AssertionError\<close>.
\<close>

theorem assertions_abort:
  "(resume_checkpoint s fs = Inl AssertionError) = (fs (checkpoints_dir s @ [latest_model]) = None)
   \<and> (\<exists>s'. resume_checkpoint s fs = Inr s') = (fs (checkpoints_dir s @ [latest_model]) \<noteq> None)
   \<and> (preload_model resolve load_state_dict s model_path fs = Inl AssertionError)
       = (fs (resolve model_path) = None)
   \<and> (\<exists>s'. preload_model resolve load_state_dict s model_path fs = Inr s')
       = (fs (resolve model_path) \<noteq> None)
   \<and> (metrics_visualization env noisy_list clean_list enhanced_list metrics_list epoch num_workers mark
        = Inl AssertionError)
       = (''STOI'' \<notin> set metrics_list \<or> ''WB_PESQ'' \<notin> set metrics_list
          \<or> (\<exists>i \<in> set metrics_list. registered_metrics env i = None))
   \<and> (init_attributes resolve config model0 optimizer0 = Inr s0
        \<and> fs (checkpoints_dir s0 @ [latest_model]) = None
      \<longrightarrow> init resolve load_state_dict config True model0 optimizer0 fs = Inl AssertionError)
   \<and> (init_resume resolve config resume model0 optimizer0 fs = Inr s1
        \<and> subscript config ''meta'' = Inr meta
        \<and> subscript meta ''preloaded_model_path'' = Inr tested \<and> truthy tested
        \<and> subscript config ''preloaded_model_path'' = Inr (VStr model_path)
        \<and> fs (resolve model_path) = None
      \<longrightarrow> init resolve load_state_dict config resume model0 optimizer0 fs = Inl AssertionError)"
proof (intro conjI)
  show "(resume_checkpoint s fs = Inl AssertionError) = (fs (checkpoints_dir s @ [latest_model]) = None)"
    by (simp add: resume_checkpoint_def split: option.splits)
  show "(\<exists>s'. resume_checkpoint s fs = Inr s') = (fs (checkpoints_dir s @ [latest_model]) \<noteq> None)"
    by (simp add: resume_checkpoint_def split: option.splits)
  show "(preload_model resolve load_state_dict s model_path fs = Inl AssertionError)
       = (fs (resolve model_path) = None)"
    by (simp add: preload_model_def split: option.splits)
  show "(\<exists>s'. preload_model resolve load_state_dict s model_path fs = Inr s')
       = (fs (resolve model_path) \<noteq> None)"
    by (simp add: preload_model_def split: option.splits)
  show "(metrics_visualization env noisy_list clean_list enhanced_list metrics_list epoch num_workers mark
        = Inl AssertionError)
       = (''STOI'' \<notin> set metrics_list \<or> ''WB_PESQ'' \<notin> set metrics_list
          \<or> (\<exists>i \<in> set metrics_list. registered_metrics env i = None))"
  proof (cases "list_all (\<lambda>i. registered_metrics env i \<noteq> None) metrics_list")
    case True
    then show ?thesis
      by (auto simp: metrics_visualization_def metrics_loop_result list_all_iff)
  next
    case False
    then show ?thesis
      by (auto simp: metrics_visualization_def list_all_iff)
  qed
  show "init_attributes resolve config model0 optimizer0 = Inr s0
        \<and> fs (checkpoints_dir s0 @ [latest_model]) = None
      \<longrightarrow> init resolve load_state_dict config True model0 optimizer0 fs = Inl AssertionError"
    by (simp add: init_def init_resume_def resume_checkpoint_def)
  show "init_resume resolve config resume model0 optimizer0 fs = Inr s1
        \<and> subscript config ''meta'' = Inr meta
        \<and> subscript meta ''preloaded_model_path'' = Inr tested \<and> truthy tested
        \<and> subscript config ''preloaded_model_path'' = Inr (VStr model_path)
        \<and> fs (resolve model_path) = None
      \<longrightarrow> init resolve load_state_dict config resume model0 optimizer0 fs = Inl AssertionError"
    by (simp add: init_def preload_model_def)
qed

text \<open>
  Each assertion failing on an empty file system, and on a metrics list without
  \<^verbatim>\<open>"WB_PESQ"\<close>.
\<close>

theorem assertions_abort_witness:
  "resume_checkpoint
     \<lparr>optimizer = (0::nat), model = (0::nat), epochs = (4::int), save_checkpoint_interval = 2,
      validation_interval = 2, save_max_metric_score = True, start_epoch = 1,
      best_score = NegInf, checkpoints_dir = [''exp'', ''checkpoints'']\<rparr> Map.empty
     = Inl AssertionError
   \<and> preload_model (\<lambda>p. [p]) (\<lambda>current loaded. loaded)
     \<lparr>optimizer = (0::nat), model = (0::nat), epochs = (4::int), save_checkpoint_interval = 2,
      validation_interval = 2, save_max_metric_score = True, start_epoch = 1,
      best_score = NegInf, checkpoints_dir = [''exp'', ''checkpoints'']\<rparr> ''pre.tar'' Map.empty
     = Inl AssertionError
   \<and> metrics_visualization
       \<lparr>registered_metrics = [''STOI'' \<mapsto> (\<lambda>ref est. Finite (ref * est)),
                              ''WB_PESQ'' \<mapsto> (\<lambda>ref est. Finite (est - ref))],
        np_mean = float_mean,
        transform_pesq_range = (\<lambda>x. float_add Finite x (Finite (1/2))),
        float_round = Finite\<rparr>
       [1, 2] [3, 4] [5, 6 :: real] [''STOI''] 1 10 ''val''
     = Inl AssertionError
   \<and> init (\<lambda>p. [p]) (\<lambda>current loaded. loaded) (sample_config (VInt 1) []) True (0::nat) (0::nat) Map.empty
     = Inl AssertionError
   \<and> init (\<lambda>p. [p]) (\<lambda>current loaded. loaded)
       (sample_config (VInt 1) [(''preloaded_model_path'', VStr ''other.tar'')]) False (0::nat) (0::nat)
       Map.empty
     = Inl AssertionError"
  using assertions_abort [where fs = "Map.empty"
      and s = "\<lparr>optimizer = (0::nat), model = (0::nat), epochs = (4::int), save_checkpoint_interval = 2,
      validation_interval = 2, save_max_metric_score = True, start_epoch = 1,
      best_score = NegInf, checkpoints_dir = [''exp'', ''checkpoints'']\<rparr>"
      and resolve = "\<lambda>p. [p]" and load_state_dict = "\<lambda>current loaded. loaded"
      and model_path = "''pre.tar''" and metrics_list = "[''STOI'']"
      and env = "\<lparr>registered_metrics = [''STOI'' \<mapsto> (\<lambda>ref est. Finite (ref * est)),
                              ''WB_PESQ'' \<mapsto> (\<lambda>ref est. Finite (est - ref))],
        np_mean = float_mean,
        transform_pesq_range = (\<lambda>x. float_add Finite x (Finite (1/2))),
        float_round = Finite\<rparr>"
      and noisy_list = "[1, 2]" and clean_list = "[3, 4]" and enhanced_list = "[5, 6 :: real]"
      and epoch = 1 and num_workers = 10 and mark = "''val''"]
  by (simp add: sample_config_def init_def init_resume_def init_attributes_def
        resume_checkpoint_def preload_model_def latest_model_def)

subsection \<open>The path of the preloaded model\<close>

text \<open>Joining a configuration string to a path, as pathlib does.\<close>

lemma joinpath_examples:
  "joinpath [''data'', ''Experiments''] ''fullsubnet'' = [''data'', ''Experiments'', ''fullsubnet'']
   \<and> joinpath [''data'', ''Experiments''] ''runs/./first/'' = [''data'', ''Experiments'', ''runs'', ''first'']
   \<and> joinpath [''data'', ''Experiments''] ''/tmp/run'' = [''tmp'', ''run'']"
  by (simp add: joinpath_def path_parts_def)

text \<open>
  C8. Where \<^verbatim>\<open>config["meta"]["preloaded_model_path"]\<close> is truthy, the constructor
  builds the path of the model to preload from the top-level entry
  \<^verbatim>\<open>config["preloaded_model_path"]\<close> and never from the entry it tested: what it
  does after the resume step is the lookup of the top-level key and the preload from
  that path. On every such configuration whose top level lacks the key, the
  constructor raises \<^verbatim>\<open>KeyError\<close> as soon as it gets to the test, and under no
  circumstances returns a trainer or preloads a model (a statement before the test
  that raises, as the assertion on \<^verbatim>\<open>validation_interval\<close>, ends the construction
  with its own error).
\<close>

theorem preload_path_from_top_level:
  assumes "subscript config ''meta'' = Inr meta"
    and "subscript meta ''preloaded_model_path'' = Inr tested"
    and "truthy tested"
  shows "init resolve load_state_dict config resume model0 optimizer0 fs =
           then_do (init_resume resolve config resume model0 optimizer0 fs) (\<lambda>s.
             then_do (then_do (subscript config ''preloaded_model_path'') as_str) (\<lambda>model_path.
               preload_model resolve load_state_dict s model_path fs))
         \<and> (subscript config ''preloaded_model_path'' = Inl KeyError \<longrightarrow>
              (\<forall>s. init_resume resolve config resume model0 optimizer0 fs = Inr s \<longrightarrow>
                 init resolve load_state_dict config resume model0 optimizer0 fs = Inl KeyError)
              \<and> (\<forall>s. init resolve load_state_dict config resume model0 optimizer0 fs \<noteq> Inr s))"
proof -
  have eq: "init resolve load_state_dict config resume model0 optimizer0 fs =
           then_do (init_resume resolve config resume model0 optimizer0 fs) (\<lambda>s.
             then_do (then_do (subscript config ''preloaded_model_path'') as_str) (\<lambda>model_path.
               preload_model resolve load_state_dict s model_path fs))"
    using assms by (simp add: init_def)
  have "init resolve load_state_dict config resume model0 optimizer0 fs = Inl KeyError"
    if "subscript config ''preloaded_model_path'' = Inl KeyError"
      and "init_resume resolve config resume model0 optimizer0 fs = Inr s" for s
    using that by (simp add: eq)
  moreover have "init resolve load_state_dict config resume model0 optimizer0 fs \<noteq> Inr s"
    if "subscript config ''preloaded_model_path'' = Inl KeyError" for s
    using that
    by (cases "init_resume resolve config resume model0 optimizer0 fs") (simp_all add: eq)
  ultimately show ?thesis using eq by blast
qed

text \<open>
  The sample configuration with \<^verbatim>\<open>validation_interval = 1.0\<close> and without the
  top-level key raises \<^verbatim>\<open>KeyError\<close>; with the top-level key it preloads the file
  that this key names, not the one named under \<^verbatim>\<open>meta\<close>.
\<close>

theorem preload_path_from_top_level_witness:
  "init path_parts (\<lambda>current loaded. loaded) (sample_config (VFloat (Finite 1)) [])
       False (0::nat) (0::nat) Map.empty
     = Inl KeyError
   \<and> init path_parts (\<lambda>current loaded. loaded)
       (sample_config (VInt 1) [(''preloaded_model_path'', VStr ''/pre/other.tar'')])
       False (0::nat) (0::nat)
       [[''pre'', ''other.tar'']
          \<mapsto> \<lparr>ck_epoch = 3, ck_best_score = Finite 1, ck_optimizer = 5, ck_model = 7\<rparr>]
     = Inr \<lparr>optimizer = 0, model = 7, epochs = VInt 9999, save_checkpoint_interval = VInt 10,
            validation_interval = VInt 1, save_max_metric_score = True, start_epoch = 1,
            best_score = NegInf,
            checkpoints_dir = [''data'', ''Experiments'', ''fullsubnet'', ''checkpoints'']\<rparr>"
proof -
  obtain meta tested where h2: "subscript (sample_config (VFloat (Finite 1)) []) ''meta'' = Inr meta"
    and h3: "subscript meta ''preloaded_model_path'' = Inr tested" and h4: "truthy tested"
    by (simp add: sample_config_def)
  have lacks: "subscript (sample_config (VFloat (Finite 1)) []) ''preloaded_model_path'' = Inl KeyError"
    by (simp add: sample_config_def)
  have reaches: "init_resume path_parts (sample_config (VFloat (Finite 1)) []) False (0::nat) (0::nat)
           Map.empty
         = Inr \<lparr>optimizer = 0, model = 0, epochs = VInt 9999, save_checkpoint_interval = VInt 10,
            validation_interval = VFloat (Finite 1), save_max_metric_score = True, start_epoch = 1,
            best_score = NegInf,
            checkpoints_dir = [''data'', ''Experiments'', ''fullsubnet'', ''checkpoints'']\<rparr>"
    by (simp add: sample_config_def init_resume_def init_attributes_def float_ge_def
          joinpath_def path_parts_def)
  have "init path_parts (\<lambda>current loaded. loaded) (sample_config (VFloat (Finite 1)) [])
       False (0::nat) (0::nat) Map.empty = Inl KeyError"
    using preload_path_from_top_level [OF h2 h3 h4, of path_parts "\<lambda>current loaded. loaded"
        False "0::nat" "0::nat" Map.empty] lacks reaches
    by simp
  moreover have "init path_parts (\<lambda>current loaded. loaded)
       (sample_config (VInt 1) [(''preloaded_model_path'', VStr ''/pre/other.tar'')])
       False (0::nat) (0::nat)
       [[''pre'', ''other.tar'']
          \<mapsto> \<lparr>ck_epoch = 3, ck_best_score = Finite 1, ck_optimizer = 5, ck_model = 7\<rparr>]
     = Inr \<lparr>optimizer = 0, model = 7, epochs = VInt 9999, save_checkpoint_interval = VInt 10,
            validation_interval = VInt 1, save_max_metric_score = True, start_epoch = 1,
            best_score = NegInf,
            checkpoints_dir = [''data'', ''Experiments'', ''fullsubnet'', ''checkpoints'']\<rparr>"
    by (simp add: sample_config_def init_def init_resume_def init_attributes_def preload_model_def
          joinpath_def path_parts_def)
  ultimately show ?thesis by simp
qed

end
